theory Spec2Isabelle
  imports Complex_Main "HOL-Library.While_Combinator"
begin

section \<open>Bending Light: view-layer operations and the optics core\<close>

text \<open>
  The repository's sources are the view layer of the simulation (JavaScript): the
  laser node with its drag handlers, the wave sensor node, the "more tools" views, the
  prisms view and the expandable protractor. JavaScript numbers are read as exact
  reals, except in \<open>setWaveSensorNodeScale\<close>: what it computes depends on the rounding
  of its products and quotients, so there the numbers are IEEE 754 doubles.
\<close>

subsection \<open>ExpandableProtractorNode.setExpanded (two directories)\<close>

text \<open>
  Both files define
  \<^verbatim>\<open>setExpanded: function( expanded ) { this.setProtractorScale( expanded ? 0.8 : 0.4 ); }\<close>.
  \<open>setProtractorScale\<close> is inherited from ProtractorNode, which is not among the
  sources: it is the parameter \<open>setProtractorScale\<close>, acting on the node's state.
\<close>

definition setExpanded_more_tools :: "(real \<Rightarrow> 'node \<Rightarrow> 'node) \<Rightarrow> bool \<Rightarrow> 'node \<Rightarrow> 'node" where
  "setExpanded_more_tools setProtractorScale expanded this =
     setProtractorScale (if expanded then 0.8 else 0.4) this"

definition setExpanded_moretools :: "(real \<Rightarrow> 'node \<Rightarrow> 'node) \<Rightarrow> bool \<Rightarrow> 'node \<Rightarrow> 'node" where
  "setExpanded_moretools setProtractorScale expanded this =
     setProtractorScale (if expanded then 0.8 else 0.4) this"

subsection \<open>PrismBreakView.stepInternal\<close>

text \<open>
  The view holds the prisms model; \<open>stepInternal\<close> reads the laser's color mode (a
  string) and the model's \<open>dirty\<close> flag. \<open>whiteLightNode.step()\<close> belongs to
  WhiteLightNode, which is not among the sources: it is the parameter
  \<open>whiteLightNode_step\<close> acting on the node's state.
\<close>

record 'w prismBreakView =
  colorMode :: string
  dirty :: bool
  whiteLightNode :: 'w

definition PrismBreakView_stepInternal ::
  "('w \<Rightarrow> 'w) \<Rightarrow> 'w prismBreakView \<Rightarrow> 'w prismBreakView" where
  "PrismBreakView_stepInternal whiteLightNode_step this =
     (if colorMode this = ''white'' \<and> dirty this
      then this\<lparr>whiteLightNode := whiteLightNode_step (whiteLightNode this), dirty := False\<rparr>
      else this)"

text \<open>
  \<open>step(dt)\<close> advances the view's EventTimer (phet-core), which calls \<open>stepInternal\<close>
  once for every timer event that falls into \<open>dt\<close>; the number of those events is the
  argument \<open>events\<close>.
\<close>

definition PrismBreakView_step ::
  "('w \<Rightarrow> 'w) \<Rightarrow> nat \<Rightarrow> 'w prismBreakView \<Rightarrow> 'w prismBreakView" where
  "PrismBreakView_step whiteLightNode_step events this =
     (PrismBreakView_stepInternal whiteLightNode_step ^^ events) this"

subsection \<open>The wave sensor and its node\<close>

type_synonym vector2 = "real \<times> real"

text \<open>
  The model objects as the view reads them: a probe has a position, the initial value
  of its position property and a recorded series; the wave sensor has a body position,
  the initial value of its body position property, two probes and a visible flag.
\<close>

record probe =
  position :: vector2
  positionInitial :: vector2
  series :: "(real \<times> real) list"

record waveSensor =
  bodyPosition :: vector2
  bodyPositionInitial :: vector2
  probe1 :: probe
  probe2 :: probe
  visible :: bool

text \<open>
  The state of a WaveSensorNode: the scale magnitudes of its body and probe nodes, the
  chart's grid lines, its membership in the two layers, its touch areas (\<open>True\<close> when
  set, \<open>False\<close> when null), a tween started by the scale animation (start and end
  triples of x, y and scale), and the sensor model. Node translations are derived from
  the model positions and are left out.
\<close>

record 'g chartNode =
  gridLines :: "'g list"

record 'g waveSensorNode =
  bodyNodeScale :: real
  probe1NodeScale :: real
  probe2NodeScale :: real
  chartNode :: "'g chartNode"
  inAfterLightLayer2 :: bool
  inBeforeLightLayer2 :: bool
  shapeTouchArea :: bool
  partsTouchArea :: bool
  tween :: "((real \<times> real \<times> real) \<times> (real \<times> real \<times> real)) option"
  waveSensor :: waveSensor

definition waveSensorNodeScaleInSideContainer :: real where
  "waveSensorNodeScaleInSideContainer = 0.33"

definition waveSensorNodeScaleOutSideContainer :: real where
  "waveSensorNodeScaleOutSideContainer = 1"

definition setWaveSensorScale :: "real \<Rightarrow> 'g waveSensorNode \<Rightarrow> 'g waveSensorNode" where
  "setWaveSensorScale scale this =
     this\<lparr>bodyNodeScale := scale, probe1NodeScale := scale, probe2NodeScale := scale\<rparr>"

text \<open>
  \<open>setWaveSensorNodeScaleAnimation\<close> starts a tween from the current probe1 position
  and body scale to the end point; the tween runs in later frames.
\<close>

definition setWaveSensorNodeScaleAnimation ::
  "real \<Rightarrow> real \<Rightarrow> real \<Rightarrow> 'g waveSensorNode \<Rightarrow> 'g waveSensorNode" where
  "setWaveSensorNodeScaleAnimation endPositionX endPositionY scale this =
     (let prevScale = bodyNodeScale this;
          startPoint = (fst (position (probe1 (waveSensor this))),
                        snd (position (probe1 (waveSensor this))), prevScale);
          endPoint = (endPositionX, endPositionY, scale)
      in this\<lparr>tween := Some (startPoint, endPoint)\<rparr>)"

definition addMoreToolsView :: "'g waveSensorNode \<Rightarrow> 'g waveSensorNode" where
  "addMoreToolsView this =
     (let this1 = (if inBeforeLightLayer2 this then this\<lparr>inBeforeLightLayer2 := False\<rparr> else this);
          this2 = (if \<not> inAfterLightLayer2 this1 then this1\<lparr>inAfterLightLayer2 := True\<rparr> else this1)
      in this2\<lparr>shapeTouchArea := False, partsTouchArea := True\<rparr>)"

definition addToSensorPanel :: "'g waveSensorNode \<Rightarrow> 'g waveSensorNode" where
  "addToSensorPanel this =
     (let this1 = (if inAfterLightLayer2 this then this\<lparr>inAfterLightLayer2 := False\<rparr> else this);
          this2 = (if \<not> inBeforeLightLayer2 this1 then this1\<lparr>inBeforeLightLayer2 := True\<rparr> else this1)
      in this2\<lparr>shapeTouchArea := True, partsTouchArea := False\<rparr>)"

text \<open>
  \<open>WaveSensorNode.reset\<close>. \<open>waveSensor.reset()\<close> belongs to the WaveSensor model,
  which is not among the sources: it is the parameter \<open>waveSensor_reset\<close>.
\<close>

definition WaveSensorNode_reset ::
  "(waveSensor \<Rightarrow> waveSensor) \<Rightarrow> 'g waveSensorNode \<Rightarrow> 'g waveSensorNode" where
  "WaveSensorNode_reset waveSensor_reset this =
     (let this1 = setWaveSensorScale waveSensorNodeScaleInSideContainer this;
          this2 = this1\<lparr>chartNode := (chartNode this1)\<lparr>gridLines := []\<rparr>\<rparr>;
          this3 = (if inAfterLightLayer2 this2 then addToSensorPanel this2 else this2)
      in this3\<lparr>waveSensor := waveSensor_reset (waveSensor this3)\<rparr>)"

text \<open>
  The \<open>end\<close> handler of the three drag listeners (body, probe, toolbox shape). They
  differ only in the containment test against the toolbox bounds, a matter of view
  geometry: its outcome is the argument \<open>inContainer\<close>.
\<close>

definition dragEnd ::
  "(waveSensor \<Rightarrow> waveSensor) \<Rightarrow> bool \<Rightarrow> 'g waveSensorNode \<Rightarrow> 'g waveSensorNode" where
  "dragEnd waveSensor_reset inContainer this =
     (if inContainer then
        let probeInitialPosition = positionInitial (probe1 (waveSensor this));
            this1 = setWaveSensorNodeScaleAnimation (fst probeInitialPosition)
                      (snd probeInitialPosition) waveSensorNodeScaleInSideContainer this;
            this2 = WaveSensorNode_reset waveSensor_reset this1;
            this3 = this2\<lparr>waveSensor := (waveSensor this2)\<lparr>visible := False\<rparr>\<rparr>
        in addToSensorPanel this3
      else this)"

subsection \<open>JavaScript numbers as IEEE 754 doubles\<close>

text \<open>
  A JavaScript number is a binary64 value: a finite real with a 53-bit significand, an
  infinity, or NaN. The sign of zero is not kept (the two zeros compare equal, and the
  only divisor read below, a scale magnitude, is never the negative zero).
\<close>

datatype double = Finite real | PlusInfinity | MinusInfinity | NotANumber

definition twoTo :: "int \<Rightarrow> real" where
  "twoTo e = (if 0 \<le> e then 2 ^ nat e else 1 / 2 ^ nat (- e))"

text \<open>Rounding to the nearest integer, ties to the even one.\<close>

definition roundEven :: "real \<Rightarrow> int" where
  "roundEven x =
     (let f = \<lfloor>x\<rfloor>; d = x - of_int f
      in if d < 1 / 2 then f else if 1 / 2 < d then f + 1 else if even f then f else f + 1)"

text \<open>
  Rounding a real result to binary64, to nearest with ties to even: the spacing of the
  doubles around \<open>x\<close> is \<open>2 ^ (e - 52)\<close> for the binary exponent \<open>e\<close> of \<open>x\<close>, never
  below the exponent -1022 of the subnormal range; a result that reaches \<open>2 ^ 1024\<close>
  overflows to an infinity.
\<close>

definition roundToDouble :: "real \<Rightarrow> double" where
  "roundToDouble x =
     (if x = 0 then Finite 0
      else
        let e = max \<lfloor>log 2 \<bar>x\<bar>\<rfloor> (- 1022);
            ulp = twoTo (e - 52);
            y = of_int (roundEven (\<bar>x\<bar> / ulp)) * ulp
        in if twoTo 1024 \<le> y then (if x < 0 then MinusInfinity else PlusInfinity)
           else Finite (if x < 0 then - y else y))"

definition infinityOf :: "bool \<Rightarrow> double" where
  "infinityOf negative = (if negative then MinusInfinity else PlusInfinity)"

text \<open>
  The four operations: the exact result of finite operands is rounded; NaN propagates;
  the infinities follow IEEE 754 (a nonzero finite number divided by zero is an
  infinity, 0/0 and infinity - infinity and 0 * infinity are NaN).
\<close>

fun jsNeg :: "double \<Rightarrow> double" where
  "jsNeg (Finite a) = Finite (- a)"
| "jsNeg PlusInfinity = MinusInfinity"
| "jsNeg MinusInfinity = PlusInfinity"
| "jsNeg NotANumber = NotANumber"

fun jsAdd :: "double \<Rightarrow> double \<Rightarrow> double" where
  "jsAdd (Finite a) (Finite b) = roundToDouble (a + b)"
| "jsAdd NotANumber _ = NotANumber"
| "jsAdd _ NotANumber = NotANumber"
| "jsAdd PlusInfinity MinusInfinity = NotANumber"
| "jsAdd MinusInfinity PlusInfinity = NotANumber"
| "jsAdd PlusInfinity _ = PlusInfinity"
| "jsAdd _ PlusInfinity = PlusInfinity"
| "jsAdd MinusInfinity _ = MinusInfinity"
| "jsAdd _ MinusInfinity = MinusInfinity"

definition jsSub :: "double \<Rightarrow> double \<Rightarrow> double" where
  "jsSub a b = jsAdd a (jsNeg b)"

fun jsMul :: "double \<Rightarrow> double \<Rightarrow> double" where
  "jsMul (Finite a) (Finite b) = roundToDouble (a * b)"
| "jsMul NotANumber _ = NotANumber"
| "jsMul _ NotANumber = NotANumber"
| "jsMul (Finite a) PlusInfinity = (if a = 0 then NotANumber else infinityOf (a < 0))"
| "jsMul (Finite a) MinusInfinity = (if a = 0 then NotANumber else infinityOf (0 < a))"
| "jsMul PlusInfinity (Finite b) = (if b = 0 then NotANumber else infinityOf (b < 0))"
| "jsMul MinusInfinity (Finite b) = (if b = 0 then NotANumber else infinityOf (0 < b))"
| "jsMul PlusInfinity PlusInfinity = PlusInfinity"
| "jsMul MinusInfinity MinusInfinity = PlusInfinity"
| "jsMul PlusInfinity MinusInfinity = MinusInfinity"
| "jsMul MinusInfinity PlusInfinity = MinusInfinity"

fun jsDiv :: "double \<Rightarrow> double \<Rightarrow> double" where
  "jsDiv (Finite a) (Finite b) =
     (if b = 0 then (if a = 0 then NotANumber else infinityOf (a < 0))
      else roundToDouble (a / b))"
| "jsDiv NotANumber _ = NotANumber"
| "jsDiv _ NotANumber = NotANumber"
| "jsDiv (Finite a) PlusInfinity = Finite 0"
| "jsDiv (Finite a) MinusInfinity = Finite 0"
| "jsDiv PlusInfinity (Finite b) = infinityOf (b < 0)"
| "jsDiv MinusInfinity (Finite b) = infinityOf (0 \<le> b)"
| "jsDiv PlusInfinity PlusInfinity = NotANumber"
| "jsDiv PlusInfinity MinusInfinity = NotANumber"
| "jsDiv MinusInfinity PlusInfinity = NotANumber"
| "jsDiv MinusInfinity MinusInfinity = NotANumber"

text \<open>A real is a double when rounding leaves it as it is.\<close>

definition isDouble :: "real \<Rightarrow> bool" where
  "isDouble x = (roundToDouble x = Finite x)"

subsection \<open>WaveSensorNode.setWaveSensorNodeScale\<close>

text \<open>
  What \<open>setWaveSensorNodeScale\<close> reads and writes: the scale magnitudes of the body and
  probe nodes (\<open>getScaleVector().x\<close>, set by \<open>setScaleMagnitude\<close>) and, of the sensor
  model, the body position and the two probe positions. Here they are doubles.
\<close>

type_synonym doubleVector2 = "double \<times> double"

record sensorGeometry =
  bodyNodeScaleVectorX :: double
  probe1NodeScaleVectorX :: double
  probe2NodeScaleVectorX :: double
  waveSensor_bodyPosition :: doubleVector2
  probe1_position :: doubleVector2
  probe2_position :: doubleVector2

text \<open>
  \<open>setWaveSensorNodeScale\<close>, operation by operation. \<open>prevScale\<close> is read before the
  nodes are rescaled; JavaScript evaluates \<open>a * s / p\<close> as \<open>(a * s) / p\<close>; the second
  pair of deltas reads probe1 and probe2 after the body position is set.
  \<open>waveSensor.translateAllXY\<close> belongs to the WaveSensor model, which is not among the
  sources: it is the parameter \<open>translateAllXY\<close>.
\<close>

definition setWaveSensorNodeScale ::
  "(double \<Rightarrow> double \<Rightarrow> sensorGeometry \<Rightarrow> sensorGeometry) \<Rightarrow>
   double \<Rightarrow> double \<Rightarrow> double \<Rightarrow> sensorGeometry \<Rightarrow> sensorGeometry" where
  "setWaveSensorNodeScale translateAllXY endPositionX endPositionY scale this =
     (let prevScale = bodyNodeScaleVectorX this;
          this1 = this\<lparr>bodyNodeScaleVectorX := scale, probe1NodeScaleVectorX := scale,
                         probe2NodeScaleVectorX := scale\<rparr>;
          delta1X = jsAdd (jsMul (fst (probe1_position this1))
                                 (jsSub (Finite 1) (jsDiv scale prevScale)))
                          (jsDiv (jsMul (fst (waveSensor_bodyPosition this1)) scale) prevScale);
          delta1Y = jsAdd (jsMul (snd (probe1_position this1))
                                 (jsSub (Finite 1) (jsDiv scale prevScale)))
                          (jsDiv (jsMul (snd (waveSensor_bodyPosition this1)) scale) prevScale);
          this2 = this1\<lparr>waveSensor_bodyPosition := (delta1X, delta1Y)\<rparr>;
          delta2X = jsAdd (jsMul (fst (probe1_position this2))
                                 (jsSub (Finite 1) (jsDiv scale prevScale)))
                          (jsDiv (jsMul (fst (probe2_position this2)) scale) prevScale);
          delta2Y = jsAdd (jsMul (snd (probe1_position this2))
                                 (jsSub (Finite 1) (jsDiv scale prevScale)))
                          (jsDiv (jsMul (snd (probe2_position this2)) scale) prevScale);
          this3 = this2\<lparr>probe2_position := (delta2X, delta2Y)\<rparr>
      in translateAllXY (jsSub endPositionX (fst (probe1_position this3)))
                        (jsSub endPositionY (snd (probe1_position this3))) this3)"

text \<open>
  Modelled from the spec: WaveSensor.translateAllXY is not among the sources. Its caller
  \<open>dragAllXY\<close> documents it: "drags all parts together (including body and probes)";
  it adds the delta to the body position and to both probe positions. It instantiates
  the parameter of \<open>setWaveSensorNodeScale\<close> at concrete inputs.
\<close>

definition WaveSensor_translateAllXY :: "double \<Rightarrow> double \<Rightarrow> sensorGeometry \<Rightarrow> sensorGeometry" where
  "WaveSensor_translateAllXY deltaX deltaY this =
     this\<lparr>waveSensor_bodyPosition := (jsAdd (fst (waveSensor_bodyPosition this)) deltaX,
                                        jsAdd (snd (waveSensor_bodyPosition this)) deltaY),
          probe1_position := (jsAdd (fst (probe1_position this)) deltaX,
                              jsAdd (snd (probe1_position this)) deltaY),
          probe2_position := (jsAdd (fst (probe2_position this)) deltaX,
                              jsAdd (snd (probe2_position this)) deltaY)\<rparr>"

text \<open>
  What the reposition formula computes for a coordinate \<open>q\<close> of the body or of probe2
  when scale and prevScale are the same \<open>s\<close> and the first summand is zero:
  \<open>0 + (q * s) / s\<close>, each operation rounded.
\<close>

definition rescaledCoordinate :: "double \<Rightarrow> double \<Rightarrow> double" where
  "rescaledCoordinate s q = jsAdd (Finite 0) (jsDiv (jsMul q s) s)"

subsection \<open>MoreToolsView: the step of the wave sensor\<close>

text \<open>
  The view holds the wave sensor node and reads the model's time. \<open>waveSensor.step()\<close>
  (WaveSensor), \<open>chartNode.step(time)\<close> (ChartNode) and the inherited
  \<open>IntroView.prototype.updateWaveShape\<close> are not among the sources and are parameters.
\<close>

record 'g moreToolsView =
  waveSensorNode :: "'g waveSensorNode"
  moreToolsModel_time :: real

definition stepWaveSensor ::
  "(waveSensor \<Rightarrow> waveSensor) \<Rightarrow> (real \<Rightarrow> 'g chartNode \<Rightarrow> 'g chartNode) \<Rightarrow>
   'g moreToolsView \<Rightarrow> 'g moreToolsView" where
  "stepWaveSensor waveSensor_step chartNode_step this =
     this\<lparr>waveSensorNode := (waveSensorNode this)
       \<lparr>waveSensor := waveSensor_step (waveSensor (waveSensorNode this)),
        chartNode := chartNode_step (moreToolsModel_time this) (chartNode (waveSensorNode this))\<rparr>\<rparr>"

text \<open>js/moretools/view/MoreToolsView.js\<close>

definition MoreToolsView_stepInternal ::
  "(waveSensor \<Rightarrow> waveSensor) \<Rightarrow> (real \<Rightarrow> 'g chartNode \<Rightarrow> 'g chartNode) \<Rightarrow>
   'g moreToolsView \<Rightarrow> 'g moreToolsView" where
  "MoreToolsView_stepInternal waveSensor_step chartNode_step this =
     (if visible (waveSensor (waveSensorNode this))
      then stepWaveSensor waveSensor_step chartNode_step this
      else this)"

text \<open>The later MoreToolsView (more-tools), whose step is \<open>updateWaveShape\<close>.\<close>

definition MoreToolsView_updateWaveShape ::
  "('g moreToolsView \<Rightarrow> 'g moreToolsView) \<Rightarrow>
   (waveSensor \<Rightarrow> waveSensor) \<Rightarrow> (real \<Rightarrow> 'g chartNode \<Rightarrow> 'g chartNode) \<Rightarrow>
   'g moreToolsView \<Rightarrow> 'g moreToolsView" where
  "MoreToolsView_updateWaveShape IntroView_updateWaveShape waveSensor_step chartNode_step this =
     (let this1 = IntroView_updateWaveShape this
      in if visible (waveSensor (waveSensorNode this1))
         then stepWaveSensor waveSensor_step chartNode_step this1
         else this1)"

subsection \<open>LaserNode: the rotation drag handler\<close>

text \<open>
  Bounds2 (dot) and Math.atan2 are the platform's: \<open>erodedXY\<close> moves each side inwards,
  \<open>containsPoint\<close> is inclusive on every side, \<open>atan2 y x\<close> is the angle of the point
  \<open>(x, y)\<close> in \<open>(-pi, pi]\<close>, and 0 at the origin.
\<close>

record bounds2 =
  minX :: real
  minY :: real
  maxX :: real
  maxY :: real

definition erodedXY :: "real \<Rightarrow> real \<Rightarrow> bounds2 \<Rightarrow> bounds2" where
  "erodedXY x y b = \<lparr>minX = minX b + x, minY = minY b + y, maxX = maxX b - x, maxY = maxY b - y\<rparr>"

definition containsPoint :: "bounds2 \<Rightarrow> vector2 \<Rightarrow> bool" where
  "containsPoint b point =
     (minX b \<le> fst point \<and> fst point \<le> maxX b \<and> minY b \<le> snd point \<and> snd point \<le> maxY b)"

definition atan2 :: "real \<Rightarrow> real \<Rightarrow> real" where
  "atan2 y x =
     (if 0 < x then arctan (y / x)
      else if x < 0 then (if 0 \<le> y then arctan (y / x) + pi else arctan (y / x) - pi)
      else if 0 < y then pi / 2
      else if y < 0 then - (pi / 2)
      else 0)"

text \<open>
  The handler's surroundings. The model-view transform, \<open>clampDragAngle\<close> and the drag
  bounds are constructor arguments of LaserNode; \<open>MAX_ANGLE_IN_WAVE_MODE\<close>
  (BendingLightConstants) and the laser's \<open>getAngle\<close> and \<open>setAngle\<close> (Laser) are not
  among the sources. All of them are fields of the environment \<open>env\<close>. Of the laser the
  handler reads the emission point, the pivot, the wave flag and \<open>topLeftQuadrant\<close>.
\<close>

record modelViewTransform2 =
  viewToModelX :: "real \<Rightarrow> real"
  viewToModelY :: "real \<Rightarrow> real"
  viewToModelBounds :: "bounds2 \<Rightarrow> bounds2"

record laser =
  emissionPoint :: vector2
  pivot :: vector2
  wave :: bool
  topLeftQuadrant :: bool

record laserNodeEnv =
  modelViewTransform :: modelViewTransform2
  clampDragAngle :: "real \<Rightarrow> real"
  dragBounds :: bounds2
  lightImageHeight :: real
  MAX_ANGLE_IN_WAVE_MODE :: real
  getAngle :: "laser \<Rightarrow> real"
  setAngle :: "real \<Rightarrow> laser \<Rightarrow> laser"

record laserNode =
  laserOf :: laser
  showTranslationDragHandles :: bool
  showRotationDragHandles :: bool

text \<open>
  The \<open>drag\<close> function of the rotation target's SimpleDragHandler, on the pointer's
  position in the parent's frame (\<open>localLaserPosition\<close>). The angle handed to the first
  \<open>setAngle\<close> is \<open>laserAngleAfterClamp\<close>.
\<close>

definition laserDragBoundsInModelValues :: "laserNodeEnv \<Rightarrow> bounds2" where
  "laserDragBoundsInModelValues env =
     (let laserNodeDragBounds =
            erodedXY (lightImageHeight env / 2) (lightImageHeight env / 2) (dragBounds env)
      in viewToModelBounds (modelViewTransform env) laserNodeDragBounds)"

definition laserAngleAfterClamp :: "laserNodeEnv \<Rightarrow> laser \<Rightarrow> vector2 \<Rightarrow> real" where
  "laserAngleAfterClamp env laser localLaserPosition =
     (let angle = atan2
            (viewToModelY (modelViewTransform env) (snd localLaserPosition) - snd (pivot laser))
            (viewToModelX (modelViewTransform env) (fst localLaserPosition) - fst (pivot laser));
          laserAngleAfterClamp = clampDragAngle env angle;
          pastMaxAngle = (laserAngleAfterClamp > MAX_ANGLE_IN_WAVE_MODE env)
      in if wave laser \<and> pastMaxAngle \<and> topLeftQuadrant laser
         then MAX_ANGLE_IN_WAVE_MODE env
         else laserAngleAfterClamp)"

definition rotationDrag :: "laserNodeEnv \<Rightarrow> vector2 \<Rightarrow> laserNode \<Rightarrow> laserNode" where
  "rotationDrag env localLaserPosition this =
     (let laserAnglebeforeRotate = getAngle env (laserOf this);
          laser1 = setAngle env (laserAngleAfterClamp env (laserOf this) localLaserPosition)
                     (laserOf this);
          laser2 = (if \<not> containsPoint (laserDragBoundsInModelValues env) (emissionPoint laser1)
                    then setAngle env laserAnglebeforeRotate laser1
                    else laser1)
      in this\<lparr>laserOf := laser2, showTranslationDragHandles := False,
              showRotationDragHandles := True\<rparr>)"

text \<open>
  Modelled from the spec: Laser.getAngle (not among the sources). The spec gives the
  laser pose as an emission point and an angle; here the angle is the direction of the
  emission point seen from the pivot. This and \<open>Laser_setAngle\<close> only instantiate the
  environment at concrete inputs.
\<close>

definition Laser_getAngle :: "laser \<Rightarrow> real" where
  "Laser_getAngle l =
     atan2 (snd (emissionPoint l) - snd (pivot l)) (fst (emissionPoint l) - fst (pivot l))"

text \<open>
  Modelled from the spec: Laser.setAngle (not among the sources), the emission point
  turned about the pivot to the given angle, at its distance from the pivot.
\<close>

definition Laser_setAngle :: "real \<Rightarrow> laser \<Rightarrow> laser" where
  "Laser_setAngle angle l =
     (let distFromPivot = sqrt ((fst (emissionPoint l) - fst (pivot l))\<^sup>2 +
                                (snd (emissionPoint l) - snd (pivot l))\<^sup>2)
      in l\<lparr>emissionPoint := (fst (pivot l) + distFromPivot * cos angle,
                               snd (pivot l) + distFromPivot * sin angle)\<rparr>)"

subsection \<open>The wave sampler's buffer\<close>

type_synonym waveSample = "real \<times> real"

text \<open>
  Modelled from the spec: the sample buffer of a probe (Probe, Series and ChartNode are
  not among the sources). "WaveSample: (time, amplitude) pair; a bounded ordered
  sequence (sliding window) per probe, oldest samples evicted as new ones arrive"; "the
  sliding window retains only the most recent N samples (N fixed by the display width);
  older samples are discarded in arrival order (FIFO)". The newest sample is the last
  element.
\<close>

definition addSample :: "nat \<Rightarrow> waveSample \<Rightarrow> waveSample list \<Rightarrow> waveSample list" where
  "addSample N sample buffer =
     (let arrived = buffer @ [sample] in drop (length arrived - N) arrived)"

text \<open>
  Modelled from the spec: a run of the sampler, one arriving sample per simulation step,
  each added to the buffer in turn.
\<close>

definition recordSamples :: "nat \<Rightarrow> waveSample list \<Rightarrow> waveSample list \<Rightarrow> waveSample list" where
  "recordSamples N samples buffer = foldl (\<lambda>b sample. addSample N sample b) buffer samples"

text \<open>
  Modelled from the spec: a probe takes an arriving sample into its series, the sliding
  window above.
\<close>

definition Probe_addSample :: "nat \<Rightarrow> waveSample \<Rightarrow> probe \<Rightarrow> probe" where
  "Probe_addSample N sample p = p\<lparr>series := addSample N sample (series p)\<rparr>"

text \<open>
  Modelled from the spec: WaveSensor.step (not among the sources) "records a WaveSample"
  for each probe; the two samples of the step are arguments.
\<close>

definition WaveSensor_step :: "nat \<Rightarrow> waveSample \<Rightarrow> waveSample \<Rightarrow> waveSensor \<Rightarrow> waveSensor" where
  "WaveSensor_step N sample1 sample2 ws =
     ws\<lparr>probe1 := Probe_addSample N sample1 (probe1 ws),
        probe2 := Probe_addSample N sample2 (probe2 ws)\<rparr>"

text \<open>
  Modelled from the spec: the reset of a probe, "WaveSamples ... are cleared on reset";
  the position goes back to its initial value.
\<close>

definition Probe_reset :: "probe \<Rightarrow> probe" where
  "Probe_reset p = p\<lparr>position := positionInitial p, series := []\<rparr>"

text \<open>
  Modelled from the spec: WaveSensor.reset (not among the sources). Every property goes
  back to its initial value, the sensor being invisible initially, and both probes are
  reset.
\<close>

definition WaveSensor_reset :: "waveSensor \<Rightarrow> waveSensor" where
  "WaveSensor_reset ws =
     ws\<lparr>bodyPosition := bodyPositionInitial ws, probe1 := Probe_reset (probe1 ws),
        probe2 := Probe_reset (probe2 ws), visible := False\<rparr>"

section \<open>The optics core, modelled from the spec\<close>

text \<open>
  The ray-tracing engine (media, intersection, the Snell/Fresnel solver, the propagation
  loop) is not among the sources. The definitions of this section follow the words of
  the spec, section by section.
\<close>

subsection \<open>Data model\<close>

text \<open>
  Modelled from the spec: "Ray: origin point, unit direction vector, wavelength, power
  (0-1, fraction of source intensity), and the refractive index of the medium it
  currently occupies."
\<close>

record ray =
  origin :: vector2
  direction :: vector2
  wavelength :: real
  rayPower :: real
  mediumIndex :: real

text \<open>
  Modelled from the spec: "Intersection: a point, the unit surface normal at that point
  (oriented against the incoming ray), and the two refractive indices on either side."
\<close>

record intersection =
  point :: vector2
  unitNormal :: vector2
  incidentIndex :: real
  farIndex :: real

text \<open>
  Modelled from the spec: the optical role of a segment, "incident / reflected /
  refracted / internally-reflected".
\<close>

datatype role = Incident | Reflected | Refracted | InternallyReflected

subsection \<open>The Snell/Fresnel solver\<close>

text \<open>Modelled from the spec: the dot product of two plane vectors.\<close>

definition dot :: "vector2 \<Rightarrow> vector2 \<Rightarrow> real" where
  "dot u v = fst u * fst v + snd u * snd v"

text \<open>
  Modelled from the spec: "Angle of incidence theta1 from the dot product of direction
  and normal". The normal faces into the incoming ray, so the angle is measured against
  the far-side normal \<open>- n\<close>; the same measure gives the angle a refracted ray makes
  with the normal.
\<close>

definition angleToNormal :: "vector2 \<Rightarrow> vector2 \<Rightarrow> real" where
  "angleToNormal d n = arccos (- dot d n)"

text \<open>
  Modelled from the spec: "Critical angle check: if n1 > n2 and sin theta1 > n2/n1, the
  interface is in total internal reflection" (the strict comparison of the solver's
  contract).
\<close>

definition totalInternalReflection :: "real \<Rightarrow> real \<Rightarrow> real \<Rightarrow> bool" where
  "totalInternalReflection n1 n2 theta1 = (n1 > n2 \<and> sin theta1 > n2 / n1)"

text \<open>
  Modelled from the spec: the critical angle of a denser-to-rarer interface, the
  incidence angle whose sine is n2/n1 ("arcsin(1/1.5)" for glass to air).
\<close>

definition criticalAngle :: "real \<Rightarrow> real \<Rightarrow> real" where
  "criticalAngle n1 n2 = arcsin (n2 / n1)"

text \<open>
  Modelled from the spec: "compute theta2 via Snell's law: sin theta2 = (n1/n2) sin
  theta1".
\<close>

definition refractionAngle :: "real \<Rightarrow> real \<Rightarrow> real \<Rightarrow> real" where
  "refractionAngle n1 n2 theta1 = arcsin ((n1 / n2) * sin theta1)"

text \<open>
  Modelled from the spec: "Fresnel reflectance R computed from theta1, theta2, n1, n2
  (unpolarized average of s- and p-polarization reflectance)".
\<close>

definition reflectance :: "real \<Rightarrow> real \<Rightarrow> real \<Rightarrow> real \<Rightarrow> real" where
  "reflectance n1 n2 theta1 theta2 =
     (let rs = ((n1 * cos theta1 - n2 * cos theta2) / (n1 * cos theta1 + n2 * cos theta2))\<^sup>2;
          rp = ((n1 * cos theta2 - n2 * cos theta1) / (n1 * cos theta2 + n2 * cos theta1))\<^sup>2
      in (rs + rp) / 2)"

text \<open>
  Modelled from the spec: "a reflected ray at angle theta1 mirrored about the normal".
\<close>

definition reflectedDirection :: "vector2 \<Rightarrow> vector2 \<Rightarrow> vector2" where
  "reflectedDirection d n =
     (fst d - 2 * dot d n * fst n, snd d - 2 * dot d n * snd n)"

text \<open>
  Modelled from the spec: "a refracted ray bent to theta2 on the far side of the
  normal": the tangential part of the direction is scaled by n1/n2 and the part along
  the far-side normal is \<open>cos theta2\<close>.
\<close>

definition refractedDirection :: "real \<Rightarrow> real \<Rightarrow> real \<Rightarrow> real \<Rightarrow> vector2 \<Rightarrow> vector2 \<Rightarrow> vector2" where
  "refractedDirection n1 n2 theta1 theta2 d n =
     (let along = (n1 / n2) * cos theta1 - cos theta2
      in ((n1 / n2) * fst d + along * fst n, (n1 / n2) * snd d + along * snd n))"

text \<open>
  Modelled from the spec: the solver's contract, steps 1 to 4. In total internal
  reflection it produces "only a reflected ray (power = incoming power) and no
  refracted ray"; otherwise "transmitted power = incident power * (1 - R), reflected
  power = incident power * R". The children start at the intersection point; the
  refracted one occupies the far medium.
\<close>

definition solveInterface :: "ray \<Rightarrow> intersection \<Rightarrow> (role \<times> ray) list" where
  "solveInterface incoming hit =
     (let d = direction incoming;
          n = unitNormal hit;
          n1 = incidentIndex hit;
          n2 = farIndex hit;
          theta1 = angleToNormal d n
      in if totalInternalReflection n1 n2 theta1
         then [(InternallyReflected,
                incoming\<lparr>origin := point hit, direction := reflectedDirection d n\<rparr>)]
         else
           let theta2 = refractionAngle n1 n2 theta1;
               R = reflectance n1 n2 theta1 theta2
           in [(Reflected,
                incoming\<lparr>origin := point hit, direction := reflectedDirection d n,
                          rayPower := rayPower incoming * R\<rparr>),
               (Refracted,
                incoming\<lparr>origin := point hit,
                          direction := refractedDirection n1 n2 theta1 theta2 d n,
                          rayPower := rayPower incoming * (1 - R), mediumIndex := n2\<rparr>)])"

subsection \<open>The propagation engine\<close>

text \<open>
  Modelled from the spec: a pending ray of the work queue, with its role and its depth
  in the tree of splits (the laser's ray has depth 0).
\<close>

record queued =
  queuedRay :: ray
  queuedRole :: role
  queuedDepth :: nat

text \<open>
  Modelled from the spec: "RaySegment (output unit): a finalized Ray bounded by a start
  and an end point ..., tagged with its optical role".
\<close>

record raySegment =
  segmentRay :: ray
  segmentStart :: vector2
  segmentEnd :: vector2
  segmentRole :: role

text \<open>
  Modelled from the spec: what a run is given besides the laser's ray. The geometry
  module for the current prisms is the function \<open>nearestIntersection\<close> ("the nearest
  intersection strictly ahead of the ray's origin ..., or none"); the power threshold
  ("e.g. 0.001 of the original source power"), the maximum depth ("e.g. 50") and the
  escape distance are constants of the engine.
\<close>

record engineConfig =
  nearestIntersection :: "ray \<Rightarrow> intersection option"
  powerThreshold :: real
  maxDepth :: nat
  escapeDistance :: real

text \<open>
  Modelled from the spec: the engine's state, "a work queue of pending Rays" and the
  segments emitted so far.
\<close>

record engineState =
  workQueue :: "queued list"
  segments :: "raySegment list"

text \<open>
  Modelled from the spec: "the ray becomes a final RaySegment truncated at a large fixed
  escape distance".
\<close>

definition escapePoint :: "engineConfig \<Rightarrow> ray \<Rightarrow> vector2" where
  "escapePoint cfg r =
     (fst (origin r) + escapeDistance cfg * fst (direction r),
      snd (origin r) + escapeDistance cfg * snd (direction r))"

text \<open>
  Modelled from the spec: "Enqueue children that pass the power threshold"; "a hard
  maximum recursion depth ... is also enforced as a safety bound regardless of power":
  a ray at the maximum depth is not split further.
\<close>

definition enqueuedChildren :: "engineConfig \<Rightarrow> queued \<Rightarrow> intersection \<Rightarrow> queued list" where
  "enqueuedChildren cfg q hit =
     (if queuedDepth q < maxDepth cfg
      then map (\<lambda>(childRole, child).
                  \<lparr>queuedRay = child, queuedRole = childRole, queuedDepth = queuedDepth q + 1\<rparr>)
             (filter (\<lambda>(childRole, child). powerThreshold cfg \<le> rayPower child)
                (solveInterface (queuedRay q) hit))
      else [])"

text \<open>
  Modelled from the spec: one turn of the loop. "Pop a ray; find its nearest
  Intersection. If none found, the ray becomes a final RaySegment ... If found, emit a
  final RaySegment from the ray's origin to the intersection point (tagged by the ray's
  role). Invoke the solver at that intersection ... Enqueue children".
\<close>

definition engineStep :: "engineConfig \<Rightarrow> engineState \<Rightarrow> engineState" where
  "engineStep cfg st =
     (case workQueue st of
        [] \<Rightarrow> st
      | q # rest \<Rightarrow>
          (case nearestIntersection cfg (queuedRay q) of
             None \<Rightarrow>
               \<lparr>workQueue = rest,
                segments = segments st @
                  [\<lparr>segmentRay = queuedRay q, segmentStart = origin (queuedRay q),
                    segmentEnd = escapePoint cfg (queuedRay q), segmentRole = queuedRole q\<rparr>]\<rparr>
           | Some hit \<Rightarrow>
               \<lparr>workQueue = rest @ enqueuedChildren cfg q hit,
                segments = segments st @
                  [\<lparr>segmentRay = queuedRay q, segmentStart = origin (queuedRay q),
                    segmentEnd = point hit, segmentRole = queuedRole q\<rparr>]\<rparr>))"

text \<open>
  Modelled from the spec: the queue is "seeded with the single ray emitted from the
  laser".
\<close>

definition seedState :: "ray \<Rightarrow> engineState" where
  "seedState laserRay =
     \<lparr>workQueue = [\<lparr>queuedRay = laserRay, queuedRole = Incident, queuedDepth = 0\<rparr>],
      segments = []\<rparr>"

text \<open>
  Modelled from the spec: the run, "Loop, while the queue is non-empty". A run that
  never empties its queue has the value \<open>None\<close>.
\<close>

definition propagate :: "engineConfig \<Rightarrow> ray \<Rightarrow> engineState option" where
  "propagate cfg laserRay =
     while_option (\<lambda>st. workQueue st \<noteq> []) (engineStep cfg) (seedState laserRay)"

subsection \<open>Measures of the engine's loop\<close>

text \<open>
  A pending ray of depth \<open>k\<close> can lead to at most \<open>2 ^ (maxDepth - k + 1) - 1\<close> turns
  of the loop; \<open>pendingWork\<close> adds this up over the queue, and \<open>withinBounds\<close> is what
  holds of every ray the loop enqueues.
\<close>

definition splitBudget :: "engineConfig \<Rightarrow> queued \<Rightarrow> nat" where
  "splitBudget cfg q = 2 ^ Suc (maxDepth cfg - queuedDepth q) - 1"

definition pendingWork :: "engineConfig \<Rightarrow> engineState \<Rightarrow> nat" where
  "pendingWork cfg st = sum_list (map (splitBudget cfg) (workQueue st))"

definition withinBounds :: "engineConfig \<Rightarrow> queued \<Rightarrow> bool" where
  "withinBounds cfg q =
     (queuedDepth q \<le> maxDepth cfg \<and> (queuedDepth q = 0 \<or> powerThreshold cfg \<le> rayPower (queuedRay q)))"

section \<open>Concrete inputs\<close>

definition recordingView :: "bool \<Rightarrow> real moreToolsView" where
  "recordingView shown =
     \<lparr>waveSensorNode =
        \<lparr>bodyNodeScale = 1, probe1NodeScale = 1, probe2NodeScale = 1,
         chartNode = \<lparr>gridLines = [0]\<rparr>,
         inAfterLightLayer2 = True, inBeforeLightLayer2 = False,
         shapeTouchArea = False, partsTouchArea = True, tween = None,
         waveSensor = \<lparr>bodyPosition = (4, 1), bodyPositionInitial = (0, 1),
                       probe1 = \<lparr>position = (2, 3), positionInitial = (0, 0), series = [(0, 1)]\<rparr>,
                       probe2 = \<lparr>position = (5, 3), positionInitial = (1, 0), series = [(0, 2)]\<rparr>,
                       visible = shown\<rparr>\<rparr>,
      moreToolsModel_time = 1\<rparr>"

definition recordGridLine :: "real \<Rightarrow> real chartNode \<Rightarrow> real chartNode" where
  "recordGridLine time chart = chart\<lparr>gridLines := gridLines chart @ [time]\<rparr>"

definition whiteDirtyView :: "nat prismBreakView" where
  "whiteDirtyView = \<lparr>colorMode = ''white'', dirty = True, whiteLightNode = 0\<rparr>"

text \<open>
  The doubles nearest 0.33 (the scale inside the toolbox) and 0.03, the double nearest
  their product, and the double next above the one nearest 0.03.
\<close>

definition double_0_33 :: real where
  "double_0_33 = 5944751508129055 / 2 ^ 54"

definition double_0_03 :: real where
  "double_0_03 = 8646911284551352 / 2 ^ 58"

definition double_0_030000000000000002 :: real where
  "double_0_030000000000000002 = 8646911284551353 / 2 ^ 58"

definition double_0_0099 :: real where
  "double_0_0099 = 5706961447803893 / 2 ^ 59"

definition toolboxGeometry :: sensorGeometry where
  "toolboxGeometry =
     \<lparr>bodyNodeScaleVectorX = Finite double_0_33,
      probe1NodeScaleVectorX = Finite double_0_33,
      probe2NodeScaleVectorX = Finite double_0_33,
      waveSensor_bodyPosition = (Finite double_0_03, Finite 0),
      probe1_position = (Finite 0, Finite 0),
      probe2_position = (Finite 0, Finite 0)\<rparr>"

definition fullSizeGeometry :: sensorGeometry where
  "fullSizeGeometry =
     \<lparr>bodyNodeScaleVectorX = Finite 1,
      probe1NodeScaleVectorX = Finite 1,
      probe2NodeScaleVectorX = Finite 1,
      waveSensor_bodyPosition = (Finite 4, Finite 1),
      probe1_position = (Finite 2, Finite 3),
      probe2_position = (Finite 5, Finite 3)\<rparr>"

definition testEnv :: "real \<Rightarrow> laserNodeEnv" where
  "testEnv h =
     \<lparr>modelViewTransform = \<lparr>viewToModelX = (\<lambda>x. x), viewToModelY = (\<lambda>y. y),
                             viewToModelBounds = (\<lambda>b. b)\<rparr>,
      clampDragAngle = (\<lambda>angle. angle),
      dragBounds = \<lparr>minX = - 3, minY = - h, maxX = 3, maxY = h\<rparr>,
      lightImageHeight = 2,
      MAX_ANGLE_IN_WAVE_MODE = pi / 2,
      getAngle = Laser_getAngle,
      setAngle = Laser_setAngle\<rparr>"

definition testLaserNode :: laserNode where
  "testLaserNode =
     \<lparr>laserOf = \<lparr>emissionPoint = (1, 0), pivot = (0, 0), wave = True, topLeftQuadrant = True\<rparr>,
      showTranslationDragHandles = True, showRotationDragHandles = False\<rparr>"

definition obliqueRay :: ray where
  "obliqueRay = \<lparr>origin = (- 3 / 4, 1), direction = (3 / 5, - 4 / 5), wavelength = 650 / 10 ^ 9,
                   rayPower = 1, mediumIndex = 3 / 2\<rparr>"

definition downwardRay :: ray where
  "downwardRay = \<lparr>origin = (0, 1), direction = (0, - 1), wavelength = 650 / 10 ^ 9,
                    rayPower = 1, mediumIndex = 3 / 2\<rparr>"

definition grazingRay :: ray where
  "grazingRay = \<lparr>origin = (- 1, 0), direction = (1, 0), wavelength = 650 / 10 ^ 9,
                   rayPower = 1, mediumIndex = 3 / 2\<rparr>"

definition glassToAir :: intersection where
  "glassToAir = \<lparr>point = (0, 0), unitNormal = (0, 1), incidentIndex = 3 / 2, farIndex = 1\<rparr>"

definition oneInterface :: engineConfig where
  "oneInterface =
     \<lparr>nearestIntersection = (\<lambda>r. if origin r = (0, 1) then Some glassToAir else None),
      powerThreshold = 1 / 1000, maxDepth = 50, escapeDistance = 1000\<rparr>"

definition reflectedChild :: queued where
  "reflectedChild =
     \<lparr>queuedRay = downwardRay\<lparr>origin := (0, 0), direction := (0, 1), rayPower := 1 / 25\<rparr>,
      queuedRole = Reflected, queuedDepth = 1\<rparr>"

definition refractedChild :: queued where
  "refractedChild =
     \<lparr>queuedRay = downwardRay\<lparr>origin := (0, 0), direction := (0, - 1), rayPower := 24 / 25,
                    mediumIndex := 1\<rparr>,
      queuedRole = Refracted, queuedDepth = 1\<rparr>"

section \<open>Theorems\<close>

subsection \<open>The view layer\<close>

text \<open>
  C9. The setExpanded of js/more-tools and the setExpanded of js/moretools are
  extensionally equal: for either boolean both hand the protractor scale 0.8 (expanded)
  or 0.4 (not expanded) to setProtractorScale.
\<close>

theorem setExpanded_versions_agree:
  "setExpanded_more_tools sps expanded node = setExpanded_moretools sps expanded node
   \<and> setExpanded_more_tools sps True node = sps 0.8 node
   \<and> setExpanded_more_tools sps False node = sps 0.4 node
   \<and> setExpanded_moretools sps True node = sps 0.8 node
   \<and> setExpanded_moretools sps False node = sps 0.4 node"
  by (simp add: setExpanded_more_tools_def setExpanded_moretools_def)


text \<open>
  C7. In white-light mode \<open>stepInternal\<close> recomputes the white-light display exactly
  when the model is dirty and clears the flag with it; otherwise it changes nothing. So
  a step of any number of timer events does what its first \<open>stepInternal\<close> does: the
  later ones recompute nothing, until the flag is set again, and then the next
  \<open>stepInternal\<close> recomputes once more.
\<close>

theorem stepInternal_white_light_dirty:
  "(colorMode v = ''white'' \<and> dirty v \<longrightarrow>
      PrismBreakView_stepInternal f v = v\<lparr>whiteLightNode := f (whiteLightNode v), dirty := False\<rparr>)
   \<and> (\<not> (colorMode v = ''white'' \<and> dirty v) \<longrightarrow> PrismBreakView_stepInternal f v = v)
   \<and> (colorMode v = ''white'' \<longrightarrow> \<not> dirty (PrismBreakView_stepInternal f v))
   \<and> (colorMode v = ''white'' \<longrightarrow>
        PrismBreakView_step f (Suc n) v = PrismBreakView_stepInternal f v)
   \<and> (colorMode v = ''white'' \<longrightarrow>
        whiteLightNode (PrismBreakView_stepInternal f ((PrismBreakView_step f n v)\<lparr>dirty := True\<rparr>))
        = f (whiteLightNode (PrismBreakView_step f n v)))"
proof -
  let ?step = "PrismBreakView_stepInternal f"
  have idem: "?step (?step w) = ?step w" for w
    by (simp add: PrismBreakView_stepInternal_def)
  have iter: "(?step ^^ Suc k) v = ?step v" for k
    by (induction k) (simp_all add: idem)
  have mode: "colorMode ((?step ^^ k) v) = colorMode v" for k
    by (induction k) (simp_all add: PrismBreakView_stepInternal_def)
  have recompute: "colorMode w = ''white'' \<Longrightarrow> dirty w \<Longrightarrow>
      ?step w = w\<lparr>whiteLightNode := f (whiteLightNode w), dirty := False\<rparr>" for w
    by (simp add: PrismBreakView_stepInternal_def)
  have skip: "\<not> (colorMode v = ''white'' \<and> dirty v) \<Longrightarrow> ?step v = v"
    by (auto simp add: PrismBreakView_stepInternal_def)
  have cleared: "colorMode v = ''white'' \<Longrightarrow> \<not> dirty (?step v)"
    by (simp add: PrismBreakView_stepInternal_def)
  have again: "whiteLightNode (?step (((?step ^^ n) v)\<lparr>dirty := True\<rparr>))
        = f (whiteLightNode ((?step ^^ n) v))" if "colorMode v = ''white''"
    using that mode [of n] recompute [of "((?step ^^ n) v)\<lparr>dirty := True\<rparr>"] by simp
  show ?thesis
    unfolding PrismBreakView_step_def
    using recompute [of v] skip cleared iter [of n] again by blast
qed

theorem stepInternal_white_light_dirty_witness:
  "colorMode whiteDirtyView = ''white'' \<and> dirty whiteDirtyView
   \<and> PrismBreakView_stepInternal Suc whiteDirtyView
       = \<lparr>colorMode = ''white'', dirty = False, whiteLightNode = 1\<rparr>
   \<and> PrismBreakView_step Suc (Suc 3) whiteDirtyView
       = \<lparr>colorMode = ''white'', dirty = False, whiteLightNode = 1\<rparr>
   \<and> PrismBreakView_stepInternal Suc (whiteDirtyView\<lparr>dirty := False\<rparr>) = whiteDirtyView\<lparr>dirty := False\<rparr>"
  using stepInternal_white_light_dirty [of whiteDirtyView Suc 3]
        stepInternal_white_light_dirty [of "whiteDirtyView\<lparr>dirty := False\<rparr>" Suc 0]
  by (simp add: whiteDirtyView_def)


lemma twoTo_powr: "twoTo e = 2 powr of_int e"
  by (simp add: twoTo_def powr_real_of_int divide_inverse)

lemma twoTo_pos: "0 < twoTo e"
  by (simp add: twoTo_powr)

lemma floor_log2:
  assumes "twoTo e \<le> x" and "x < twoTo (e + 1)"
  shows "\<lfloor>log 2 x\<rfloor> = e"
proof -
  have pos: "0 < x" using assms(1) twoTo_pos [of e] by linarith
  have lo: "of_int e \<le> log 2 x"
    using assms(1) pos by (simp add: le_log_iff twoTo_powr)
  have hi: "log 2 x < of_int (e + 1)"
    using assms(2) pos by (simp add: log_less_iff twoTo_powr)
  show ?thesis
    using lo hi by (intro floor_unique) auto
qed

lemma roundEven_nearest:
  assumes "of_int m - 1 / 2 < x" and "x < of_int m + 1 / 2"
  shows "roundEven x = m"
proof -
  have "\<lfloor>x\<rfloor> = m \<or> \<lfloor>x\<rfloor> = m - 1"
    using assms by linarith
  then show ?thesis
  proof
    assume f: "\<lfloor>x\<rfloor> = m"
    then have "x - of_int m < 1 / 2" using assms by linarith
    with f show ?thesis by (simp add: roundEven_def Let_def)
  next
    assume f: "\<lfloor>x\<rfloor> = m - 1"
    then have "1 / 2 < x - of_int (m - 1)" using assms by simp
    with f show ?thesis by (simp add: roundEven_def Let_def)
  qed
qed

lemma roundToDouble_nearest:
  assumes "twoTo e \<le> x" and "x < twoTo (e + 1)" and "- 1022 \<le> e"
    and "of_int m - 1 / 2 < x / twoTo (e - 52)" and "x / twoTo (e - 52) < of_int m + 1 / 2"
    and "of_int m * twoTo (e - 52) < twoTo 1024"
  shows "roundToDouble x = Finite (of_int m * twoTo (e - 52))"
proof -
  have pos: "0 < x" using assms(1) twoTo_pos [of e] by linarith
  then have ax: "\<bar>x\<bar> = x" by simp
  have ex: "max \<lfloor>log 2 x\<rfloor> (- 1022) = e"
    using floor_log2 [OF assms(1,2)] assms(3) by simp
  have m: "roundEven (x / twoTo (e - 52)) = m"
    by (rule roundEven_nearest [OF assms(4,5)])
  have "roundToDouble x =
      (let y = of_int (roundEven (x / twoTo (e - 52))) * twoTo (e - 52)
       in if twoTo 1024 \<le> y then PlusInfinity else Finite y)"
    using pos by (simp add: roundToDouble_def ax ex Let_def)
  then show ?thesis
    using assms(6) by (simp add: m Let_def)
qed

lemma roundToDouble_zero: "roundToDouble 0 = Finite 0"
  by (simp add: roundToDouble_def)

lemma roundToDouble_one: "roundToDouble 1 = Finite 1"
  using roundToDouble_nearest [of 0 1 "2 ^ 52"]
  by (simp add: twoTo_def)

lemma unit_factor:
  assumes "s \<noteq> 0"
  shows "jsMul (Finite p) (jsSub (Finite 1) (jsDiv (Finite s) (Finite s))) = Finite 0"
  using assms by (simp add: jsSub_def roundToDouble_one roundToDouble_zero)

lemma rescaled_exact:
  assumes "s \<noteq> 0" and "isDouble q" and "isDouble (q * s)"
  shows "rescaledCoordinate (Finite s) (Finite q) = Finite q"
  using assms by (simp add: rescaledCoordinate_def isDouble_def)

text \<open>
  C8 (amended). For a wave sensor node whose current scale \<open>s\<close> is a finite nonzero
  double and whose probe1 position is finite, \<open>setWaveSensorNodeScale\<close> with the end
  position at probe1's position and scale \<open>s\<close> ends with \<open>translateAllXY\<close> by the zero
  vector; before that it leaves probe1's position as it is and replaces every
  coordinate \<open>q\<close> of the body position and of probe2's position by \<open>0 + (q * s) / s\<close> in
  double arithmetic. When every such \<open>q\<close> and its product \<open>q * s\<close> are doubles (as at
  \<open>s = 1\<close>, the scale outside the toolbox) that value is \<open>q\<close>: the three positions are
  handed to the zero translation as they were.
\<close>

theorem setWaveSensorNodeScale_same_scale:
  assumes "bodyNodeScaleVectorX this = Finite s" and "s \<noteq> 0"
    and "probe1_position this = (Finite x1, Finite y1)"
  shows "setWaveSensorNodeScale translateAllXY (Finite x1) (Finite y1) (Finite s) this
         = translateAllXY (Finite 0) (Finite 0)
             (this\<lparr>probe1NodeScaleVectorX := Finite s, probe2NodeScaleVectorX := Finite s,
                   waveSensor_bodyPosition :=
                     (rescaledCoordinate (Finite s) (fst (waveSensor_bodyPosition this)),
                      rescaledCoordinate (Finite s) (snd (waveSensor_bodyPosition this))),
                   probe2_position :=
                     (rescaledCoordinate (Finite s) (fst (probe2_position this)),
                      rescaledCoordinate (Finite s) (snd (probe2_position this)))\<rparr>)
       \<and> (waveSensor_bodyPosition this = (Finite bx, Finite by)
            \<and> probe2_position this = (Finite cx, Finite cy)
            \<and> isDouble bx \<and> isDouble (bx * s) \<and> isDouble by \<and> isDouble (by * s)
            \<and> isDouble cx \<and> isDouble (cx * s) \<and> isDouble cy \<and> isDouble (cy * s) \<longrightarrow>
          setWaveSensorNodeScale translateAllXY (Finite x1) (Finite y1) (Finite s) this
          = translateAllXY (Finite 0) (Finite 0)
              (this\<lparr>probe1NodeScaleVectorX := Finite s, probe2NodeScaleVectorX := Finite s\<rparr>))"
proof -
  have first: "setWaveSensorNodeScale translateAllXY (Finite x1) (Finite y1) (Finite s) this
         = translateAllXY (Finite 0) (Finite 0)
             (this\<lparr>probe1NodeScaleVectorX := Finite s, probe2NodeScaleVectorX := Finite s,
                   waveSensor_bodyPosition :=
                     (rescaledCoordinate (Finite s) (fst (waveSensor_bodyPosition this)),
                      rescaledCoordinate (Finite s) (snd (waveSensor_bodyPosition this))),
                   probe2_position :=
                     (rescaledCoordinate (Finite s) (fst (probe2_position this)),
                      rescaledCoordinate (Finite s) (snd (probe2_position this)))\<rparr>)"
  proof -
    have same: "this\<lparr>bodyNodeScaleVectorX := Finite s\<rparr> = this"
      using assms(1) by simp
    have zero: "jsSub (Finite x1) (Finite x1) = Finite 0" "jsSub (Finite y1) (Finite y1) = Finite 0"
      by (simp_all add: jsSub_def roundToDouble_zero)
    show ?thesis
      unfolding setWaveSensorNodeScale_def Let_def
      by (simp add: assms rescaledCoordinate_def zero same jsSub_def
          roundToDouble_one roundToDouble_zero)
  qed
  have second: "setWaveSensorNodeScale translateAllXY (Finite x1) (Finite y1) (Finite s) this
          = translateAllXY (Finite 0) (Finite 0)
              (this\<lparr>probe1NodeScaleVectorX := Finite s, probe2NodeScaleVectorX := Finite s\<rparr>)"
    if "waveSensor_bodyPosition this = (Finite bx, Finite by)"
       "probe2_position this = (Finite cx, Finite cy)"
       "isDouble bx" "isDouble (bx * s)" "isDouble by" "isDouble (by * s)"
       "isDouble cx" "isDouble (cx * s)" "isDouble cy" "isDouble (cy * s)"
  proof -
    have "this\<lparr>probe1NodeScaleVectorX := Finite s, probe2NodeScaleVectorX := Finite s,
                   waveSensor_bodyPosition :=
                     (rescaledCoordinate (Finite s) (fst (waveSensor_bodyPosition this)),
                      rescaledCoordinate (Finite s) (snd (waveSensor_bodyPosition this))),
                   probe2_position :=
                     (rescaledCoordinate (Finite s) (fst (probe2_position this)),
                      rescaledCoordinate (Finite s) (snd (probe2_position this)))\<rparr>
          = this\<lparr>probe1NodeScaleVectorX := Finite s, probe2NodeScaleVectorX := Finite s\<rparr>"
      using that assms(2) by (simp add: rescaled_exact)
    with first show ?thesis by simp
  qed
  from first second show ?thesis by blast
qed

lemma small_doubles:
  "isDouble 1" "isDouble 3" "isDouble 4" "isDouble 5"
  using roundToDouble_nearest [of 0 1 "2 ^ 52"] roundToDouble_nearest [of 1 3 "3 * 2 ^ 51"]
        roundToDouble_nearest [of 2 4 "2 ^ 52"] roundToDouble_nearest [of 2 5 "5 * 2 ^ 50"]
  by (simp_all add: isDouble_def twoTo_def)

theorem setWaveSensorNodeScale_same_scale_witness:
  "bodyNodeScaleVectorX fullSizeGeometry = Finite 1 \<and> (1 :: real) \<noteq> 0
   \<and> probe1_position fullSizeGeometry = (Finite 2, Finite 3)
   \<and> waveSensor_bodyPosition fullSizeGeometry = (Finite 4, Finite 1)
   \<and> probe2_position fullSizeGeometry = (Finite 5, Finite 3)
   \<and> isDouble 4 \<and> isDouble (4 * 1) \<and> isDouble 1 \<and> isDouble (1 * 1)
   \<and> isDouble 5 \<and> isDouble (5 * 1) \<and> isDouble 3 \<and> isDouble (3 * 1)
   \<and> setWaveSensorNodeScale WaveSensor_translateAllXY (Finite 2) (Finite 3) (Finite 1)
         fullSizeGeometry = fullSizeGeometry"
proof -
  have s: "bodyNodeScaleVectorX fullSizeGeometry = Finite 1"
    and p: "probe1_position fullSizeGeometry = (Finite 2, Finite 3)"
    and b: "waveSensor_bodyPosition fullSizeGeometry = (Finite 4, Finite 1)"
    and c: "probe2_position fullSizeGeometry = (Finite 5, Finite 3)"
    by (simp_all add: fullSizeGeometry_def)
  have nz: "(1 :: real) \<noteq> 0" by simp
  have sums: "roundToDouble 1 = Finite 1" "roundToDouble 3 = Finite 3"
       "roundToDouble 4 = Finite 4" "roundToDouble 5 = Finite 5"
       "roundToDouble 2 = Finite 2"
    using small_doubles roundToDouble_nearest [of 1 2 "2 ^ 52"]
    by (simp_all add: isDouble_def twoTo_def)
  have still: "WaveSensor_translateAllXY (Finite 0) (Finite 0)
                 (fullSizeGeometry\<lparr>probe1NodeScaleVectorX := Finite 1,
                                    probe2NodeScaleVectorX := Finite 1\<rparr>) = fullSizeGeometry"
    by (simp add: WaveSensor_translateAllXY_def fullSizeGeometry_def sums)
  have exact: "waveSensor_bodyPosition fullSizeGeometry = (Finite 4, Finite 1)
      \<and> probe2_position fullSizeGeometry = (Finite 5, Finite 3)
      \<and> isDouble 4 \<and> isDouble (4 * 1) \<and> isDouble 1 \<and> isDouble (1 * 1)
      \<and> isDouble 5 \<and> isDouble (5 * 1) \<and> isDouble 3 \<and> isDouble (3 * 1)"
    using b c small_doubles by simp
  have "setWaveSensorNodeScale WaveSensor_translateAllXY (Finite 2) (Finite 3) (Finite 1)
         fullSizeGeometry
        = WaveSensor_translateAllXY (Finite 0) (Finite 0)
            (fullSizeGeometry\<lparr>probe1NodeScaleVectorX := Finite 1,
                               probe2NodeScaleVectorX := Finite 1\<rparr>)"
    using conjunct2 [OF setWaveSensorNodeScale_same_scale
            [OF s nz p, of WaveSensor_translateAllXY 4 1 5 3]] exact
    by (rule mp)
  then have "setWaveSensorNodeScale WaveSensor_translateAllXY (Finite 2) (Finite 3) (Finite 1)
         fullSizeGeometry = fullSizeGeometry"
    by (simp only: still)
  with s nz p exact show ?thesis by blast
qed

text \<open>
  At the toolbox scale 0.33 a body at x = 0.03 does not stay: the product rounds to
  the double nearest 0.0099, and its quotient by 0.33 rounds to 0.030000000000000002.
\<close>

lemma literal_0_33: "roundToDouble (33 / 100) = Finite double_0_33"
  using roundToDouble_nearest [of "- 2" "33 / 100" 5944751508129055]
  by (simp add: twoTo_def double_0_33_def)

lemma literal_0_03: "roundToDouble (3 / 100) = Finite double_0_03"
  using roundToDouble_nearest [of "- 6" "3 / 100" 8646911284551352]
  by (simp add: twoTo_def double_0_03_def)

lemma product_0_03_0_33:
  "roundToDouble (double_0_03 * double_0_33) = Finite double_0_0099"
  using roundToDouble_nearest [of "- 7" "double_0_03 * double_0_33" 5706961447803893]
  by (simp add: twoTo_def double_0_03_def double_0_33_def double_0_0099_def)

lemma quotient_by_0_33:
  "roundToDouble (double_0_0099 / double_0_33) = Finite double_0_030000000000000002"
  using roundToDouble_nearest [of "- 6" "double_0_0099 / double_0_33" 8646911284551353]
  by (simp add: twoTo_def double_0_33_def double_0_030000000000000002_def double_0_0099_def)

lemma isDouble_0_030000000000000002:
  "roundToDouble double_0_030000000000000002 = Finite double_0_030000000000000002"
  using roundToDouble_nearest [of "- 6" double_0_030000000000000002 8646911284551353]
  by (simp add: twoTo_def double_0_030000000000000002_def)

lemma rescaled_0_03:
  "rescaledCoordinate (Finite double_0_33) (Finite double_0_03) = Finite double_0_030000000000000002"
proof -
  have nz: "double_0_33 \<noteq> 0" by (simp add: double_0_33_def)
  have "jsMul (Finite double_0_03) (Finite double_0_33) = Finite double_0_0099"
    by (simp only: jsMul.simps product_0_03_0_33)
  moreover have "jsDiv (Finite double_0_0099) (Finite double_0_33)
                 = Finite double_0_030000000000000002"
    using nz by (simp only: jsDiv.simps quotient_by_0_33 if_False)
  moreover have "jsAdd (Finite 0) (Finite double_0_030000000000000002)
                 = Finite double_0_030000000000000002"
    by (simp only: jsAdd.simps add_0 isDouble_0_030000000000000002)
  ultimately show ?thesis
    by (simp only: rescaledCoordinate_def)
qed

lemma rescaled_zero: "s \<noteq> 0 \<Longrightarrow> rescaledCoordinate (Finite s) (Finite 0) = Finite 0"
  by (simp add: rescaledCoordinate_def roundToDouble_zero)

theorem setWaveSensorNodeScale_rounding_counterexample:
  "bodyNodeScaleVectorX toolboxGeometry = Finite double_0_33
   \<and> probe1_position toolboxGeometry = (Finite 0, Finite 0)
   \<and> waveSensor_bodyPosition toolboxGeometry = (Finite double_0_03, Finite 0)
   \<and> waveSensor_bodyPosition
        (setWaveSensorNodeScale WaveSensor_translateAllXY (Finite 0) (Finite 0)
           (Finite double_0_33) toolboxGeometry)
       = (Finite double_0_030000000000000002, Finite 0)
   \<and> double_0_030000000000000002 \<noteq> double_0_03"
proof -
  have nz: "double_0_33 \<noteq> 0" by (simp add: double_0_33_def)
  have s: "bodyNodeScaleVectorX toolboxGeometry = Finite double_0_33"
    and p: "probe1_position toolboxGeometry = (Finite 0, Finite 0)"
    and b: "waveSensor_bodyPosition toolboxGeometry = (Finite double_0_03, Finite 0)"
    by (simp_all add: toolboxGeometry_def)
  have "waveSensor_bodyPosition
        (setWaveSensorNodeScale WaveSensor_translateAllXY (Finite 0) (Finite 0)
           (Finite double_0_33) toolboxGeometry)
       = (Finite double_0_030000000000000002, Finite 0)"
    unfolding conjunct1 [OF setWaveSensorNodeScale_same_scale [OF s nz p]]
    by (simp add: WaveSensor_translateAllXY_def b rescaled_0_03 rescaled_zero [OF nz]
        isDouble_0_030000000000000002 roundToDouble_zero)
  moreover have "double_0_030000000000000002 \<noteq> double_0_03"
    by (simp add: double_0_030000000000000002_def double_0_03_def)
  ultimately show ?thesis using s p b by simp
qed

text \<open>
  C10. After a rotation drag either the emission point lies in the eroded drag bounds
  in model coordinates, or the laser's angle is the one read before the drag: the laser
  is the one rotated to the clamped angle, or that one set back to the angle read
  before. The premise is the laser's contract at this drag: the angle read before the
  drag, set on the rotated laser, is read back. With the wave flag and \<open>topLeftQuadrant\<close> set, the angle applied
  is at most \<open>MAX_ANGLE_IN_WAVE_MODE\<close>.
\<close>

theorem rotationDrag_in_bounds_or_restored:
  assumes "getAngle env (setAngle env (getAngle env (laserOf this))
             (setAngle env (laserAngleAfterClamp env (laserOf this) p) (laserOf this)))
           = getAngle env (laserOf this)"
  shows "(containsPoint (laserDragBoundsInModelValues env)
            (emissionPoint (laserOf (rotationDrag env p this)))
          \<or> getAngle env (laserOf (rotationDrag env p this)) = getAngle env (laserOf this))
       \<and> (laserOf (rotationDrag env p this)
             = setAngle env (laserAngleAfterClamp env (laserOf this) p) (laserOf this)
          \<or> laserOf (rotationDrag env p this)
             = setAngle env (getAngle env (laserOf this))
                 (setAngle env (laserAngleAfterClamp env (laserOf this) p) (laserOf this)))
       \<and> (wave (laserOf this) \<and> topLeftQuadrant (laserOf this) \<longrightarrow>
            laserAngleAfterClamp env (laserOf this) p \<le> MAX_ANGLE_IN_WAVE_MODE env)"
proof -
  let ?applied = "laserAngleAfterClamp env (laserOf this) p"
  let ?rotated = "setAngle env ?applied (laserOf this)"
  show ?thesis
  proof (cases "containsPoint (laserDragBoundsInModelValues env) (emissionPoint ?rotated)")
    case True
    then have "laserOf (rotationDrag env p this) = ?rotated"
      by (simp add: rotationDrag_def)
    with True show ?thesis
      by (simp add: laserAngleAfterClamp_def Let_def)
  next
    case False
    then have "laserOf (rotationDrag env p this)
               = setAngle env (getAngle env (laserOf this)) ?rotated"
      by (simp add: rotationDrag_def)
    with assms show ?thesis
      by (simp add: laserAngleAfterClamp_def Let_def)
  qed
qed

lemma Laser_setAngle_zero_getAngle: "Laser_getAngle (Laser_setAngle 0 l) = 0"
  by (simp add: Laser_getAngle_def Laser_setAngle_def atan2_def Let_def not_less)

lemma testLaser_getAngle: "Laser_getAngle (laserOf testLaserNode) = 0"
  by (simp add: Laser_getAngle_def testLaserNode_def atan2_def)

lemma testLaser_applied: "laserAngleAfterClamp (testEnv h) (laserOf testLaserNode) (- 1, 0) = pi / 2"
  by (simp add: laserAngleAfterClamp_def testEnv_def testLaserNode_def atan2_def Let_def)

lemma testLaser_rotated:
  "Laser_setAngle (pi / 2) (laserOf testLaserNode) = (laserOf testLaserNode)\<lparr>emissionPoint := (0, 1)\<rparr>"
  by (simp add: Laser_setAngle_def testLaserNode_def Let_def)

theorem rotationDrag_in_bounds_or_restored_witness:
  "getAngle (testEnv (3/2)) (setAngle (testEnv (3/2)) (getAngle (testEnv (3/2)) (laserOf testLaserNode))
       (setAngle (testEnv (3/2)) (laserAngleAfterClamp (testEnv (3/2)) (laserOf testLaserNode) (- 1, 0))
          (laserOf testLaserNode)))
     = getAngle (testEnv (3/2)) (laserOf testLaserNode)
   \<and> wave (laserOf testLaserNode) \<and> topLeftQuadrant (laserOf testLaserNode)
   \<and> laserAngleAfterClamp (testEnv 3) (laserOf testLaserNode) (- 1, 0) = pi / 2
   \<and> emissionPoint (laserOf (rotationDrag (testEnv 3) (- 1, 0) testLaserNode)) = (0, 1)
   \<and> containsPoint (laserDragBoundsInModelValues (testEnv 3))
        (emissionPoint (laserOf (rotationDrag (testEnv 3) (- 1, 0) testLaserNode)))
   \<and> \<not> containsPoint (laserDragBoundsInModelValues (testEnv (3/2))) (0, 1)
   \<and> emissionPoint (laserOf (rotationDrag (testEnv (3/2)) (- 1, 0) testLaserNode)) = (1, 0)
   \<and> getAngle (testEnv (3/2)) (laserOf (rotationDrag (testEnv (3/2)) (- 1, 0) testLaserNode))
       = getAngle (testEnv (3/2)) (laserOf testLaserNode)"
proof -
  have envGet: "getAngle (testEnv h) = Laser_getAngle" for h
    by (simp add: testEnv_def)
  have envSet: "setAngle (testEnv h) = Laser_setAngle" for h
    by (simp add: testEnv_def)
  have pre: "getAngle (testEnv h) (setAngle (testEnv h) (getAngle (testEnv h) (laserOf testLaserNode))
        (setAngle (testEnv h) (laserAngleAfterClamp (testEnv h) (laserOf testLaserNode) (- 1, 0))
           (laserOf testLaserNode)))
      = getAngle (testEnv h) (laserOf testLaserNode)" for h
    by (simp add: envGet envSet testLaser_getAngle Laser_setAngle_zero_getAngle)
  have b3: "laserDragBoundsInModelValues (testEnv h) = \<lparr>minX = - 2, minY = 1 - h, maxX = 2, maxY = h - 1\<rparr>" for h
    by (simp add: laserDragBoundsInModelValues_def testEnv_def erodedXY_def)
  have in3: "containsPoint (laserDragBoundsInModelValues (testEnv 3)) (0, 1)"
    by (simp add: b3 containsPoint_def)
  have out: "\<not> containsPoint (laserDragBoundsInModelValues (testEnv (3/2))) (0, 1)"
    by (simp add: b3 containsPoint_def)
  have r3: "laserOf (rotationDrag (testEnv 3) (- 1, 0) testLaserNode)
            = (laserOf testLaserNode)\<lparr>emissionPoint := (0, 1)\<rparr>"
    using in3 by (simp add: rotationDrag_def envSet testLaser_applied testLaser_rotated)
  have restored: "Laser_setAngle 0 ((laserOf testLaserNode)\<lparr>emissionPoint := (0, 1)\<rparr>) = laserOf testLaserNode"
    by (simp add: Laser_setAngle_def testLaserNode_def Let_def)
  have r15: "laserOf (rotationDrag (testEnv (3/2)) (- 1, 0) testLaserNode) = laserOf testLaserNode"
    using out by (simp add: rotationDrag_def envGet envSet testLaser_applied testLaser_rotated testLaser_getAngle restored)
  show ?thesis
    using rotationDrag_in_bounds_or_restored [OF pre [of 3]]
          rotationDrag_in_bounds_or_restored [OF pre [of "3/2"]]
          pre [of "3/2"] in3 out
    by (simp add: r3 r15 testLaser_applied) (simp add: testLaserNode_def)
qed


text \<open>
  C5. A step of either MoreToolsView leaves the view as it was while the wave sensor is
  invisible, however many steps run, and advances the sensor (and the chart) when it is
  visible. Resetting the sensor node resets the sensor and clears the chart's grid
  lines; dropping the node into the toolbox resets the sensor and then sets it
  invisible.
\<close>

theorem wave_samples_only_while_visible:
  "(\<not> visible (waveSensor (waveSensorNode v)) \<longrightarrow>
      MoreToolsView_stepInternal wstep cstep v = v
      \<and> (MoreToolsView_stepInternal wstep cstep ^^ n) v = v)
   \<and> (visible (waveSensor (waveSensorNode v)) \<longrightarrow>
      MoreToolsView_stepInternal wstep cstep v = stepWaveSensor wstep cstep v)
   \<and> (\<not> visible (waveSensor (waveSensorNode (intro v))) \<longrightarrow>
      MoreToolsView_updateWaveShape intro wstep cstep v = intro v)
   \<and> (visible (waveSensor (waveSensorNode (intro v))) \<longrightarrow>
      MoreToolsView_updateWaveShape intro wstep cstep v = stepWaveSensor wstep cstep (intro v))
   \<and> waveSensor (waveSensorNode (stepWaveSensor wstep cstep v))
       = wstep (waveSensor (waveSensorNode v))
   \<and> waveSensor (WaveSensorNode_reset wreset node) = wreset (waveSensor node)
   \<and> gridLines (chartNode (WaveSensorNode_reset wreset node)) = []
   \<and> waveSensor (dragEnd wreset True node) = (wreset (waveSensor node))\<lparr>visible := False\<rparr>
   \<and> dragEnd wreset False node = node"
proof -
  have hidden: "MoreToolsView_stepInternal wstep cstep v = v"
    if "\<not> visible (waveSensor (waveSensorNode v))"
    using that by (simp add: MoreToolsView_stepInternal_def)
  have hidden_steps: "(MoreToolsView_stepInternal wstep cstep ^^ k) v = v"
    if "\<not> visible (waveSensor (waveSensorNode v))" for k
    using that by (induction k) (simp_all add: hidden)
  have shown: "MoreToolsView_stepInternal wstep cstep v = stepWaveSensor wstep cstep v"
    if "visible (waveSensor (waveSensorNode v))"
    using that by (simp add: MoreToolsView_stepInternal_def)
  have update: "MoreToolsView_updateWaveShape intro wstep cstep v =
      (if visible (waveSensor (waveSensorNode (intro v)))
       then stepWaveSensor wstep cstep (intro v) else intro v)"
    by (simp add: MoreToolsView_updateWaveShape_def Let_def)
  have advanced: "waveSensor (waveSensorNode (stepWaveSensor wstep cstep v))
      = wstep (waveSensor (waveSensorNode v))"
    by (simp add: stepWaveSensor_def)
  have reset_sensor: "waveSensor (WaveSensorNode_reset wreset m) = wreset (waveSensor m)" for m :: "'c waveSensorNode"
    by (simp add: WaveSensorNode_reset_def setWaveSensorScale_def addToSensorPanel_def Let_def)
  have reset_grid: "gridLines (chartNode (WaveSensorNode_reset wreset node)) = []"
    by (simp add: WaveSensorNode_reset_def setWaveSensorScale_def addToSensorPanel_def Let_def)
  have dropped: "waveSensor (dragEnd wreset True node) = (wreset (waveSensor node))\<lparr>visible := False\<rparr>"
    by (simp add: dragEnd_def addToSensorPanel_def Let_def reset_sensor
        setWaveSensorNodeScaleAnimation_def)
  have kept: "dragEnd wreset False node = node"
    by (simp add: dragEnd_def)
  show ?thesis
    using hidden hidden_steps [of n] shown update advanced reset_sensor [of node] reset_grid dropped kept
    by simp
qed

theorem wave_samples_only_while_visible_witness:
  "\<not> visible (waveSensor (waveSensorNode (recordingView False)))
   \<and> (MoreToolsView_stepInternal (WaveSensor_step 3 (1, 5) (1, 6)) recordGridLine ^^ 4)
        (recordingView False) = recordingView False
   \<and> MoreToolsView_updateWaveShape (\<lambda>v. v) (WaveSensor_step 3 (1, 5) (1, 6)) recordGridLine
        (recordingView False) = recordingView False
   \<and> visible (waveSensor (waveSensorNode (recordingView True)))
   \<and> series (probe1 (waveSensor (waveSensorNode
        (MoreToolsView_stepInternal (WaveSensor_step 3 (1, 5) (1, 6)) recordGridLine
          (recordingView True))))) = [(0, 1), (1, 5)]
   \<and> series (probe2 (waveSensor (waveSensorNode
        (MoreToolsView_updateWaveShape (\<lambda>v. v) (WaveSensor_step 3 (1, 5) (1, 6)) recordGridLine
          (recordingView True))))) = [(0, 2), (1, 6)]
   \<and> series (probe1 (waveSensor (WaveSensorNode_reset WaveSensor_reset
        (waveSensorNode (recordingView True))))) = []
   \<and> series (probe2 (waveSensor (dragEnd WaveSensor_reset True
        (waveSensorNode (recordingView True))))) = []
   \<and> \<not> visible (waveSensor (dragEnd WaveSensor_reset True (waveSensorNode (recordingView True))))"
proof -
  let ?step = "WaveSensor_step 3 (1, 5) (1, 6)"
  have off: "\<not> visible (waveSensor (waveSensorNode (recordingView False)))"
    by (simp add: recordingView_def)
  have on: "visible (waveSensor (waveSensorNode (recordingView True)))"
    by (simp add: recordingView_def)
  have stepped: "series (probe1 (?step (waveSensor (waveSensorNode (recordingView True)))))
                   = [(0, 1), (1, 5)]
                 \<and> series (probe2 (?step (waveSensor (waveSensorNode (recordingView True)))))
                   = [(0, 2), (1, 6)]"
    by (simp add: recordingView_def WaveSensor_step_def Probe_addSample_def addSample_def)
  have cleared: "series (probe1 (WaveSensor_reset w)) = [] \<and> series (probe2 (WaveSensor_reset w)) = []
                 \<and> series (probe2 ((WaveSensor_reset w)\<lparr>visible := False\<rparr>)) = []
                 \<and> \<not> visible ((WaveSensor_reset w)\<lparr>visible := False\<rparr>)" for w
    by (simp add: WaveSensor_reset_def Probe_reset_def)
  show ?thesis
    using wave_samples_only_while_visible
            [of "recordingView False" ?step recordGridLine 4 "\<lambda>v. v" WaveSensor_reset
                "waveSensorNode (recordingView True)"]
          wave_samples_only_while_visible
            [of "recordingView True" ?step recordGridLine 4 "\<lambda>v. v" WaveSensor_reset
                "waveSensorNode (recordingView True)"]
          off on stepped cleared
    by simp
qed

lemma length_addSample: "length (addSample N sample buffer) = min N (Suc (length buffer))"
  by (simp add: addSample_def Let_def)

lemma recordSamples_append:
  "recordSamples N samples buffer = drop (length (buffer @ samples) - N) (buffer @ samples)"
  if "length buffer \<le> N"
  using that
proof (induction samples arbitrary: buffer)
  case Nil
  then show ?case by (simp add: recordSamples_def)
next
  case (Cons s samples)
  have le: "length (addSample N s buffer) \<le> N"
    by (simp add: length_addSample)
  have "recordSamples N (s # samples) buffer = recordSamples N samples (addSample N s buffer)"
    by (simp add: recordSamples_def)
  also have "\<dots> = drop (length (addSample N s buffer @ samples) - N) (addSample N s buffer @ samples)"
    using Cons.IH [OF le] .
  also have "\<dots> = drop (length (buffer @ s # samples) - N) (buffer @ s # samples)"
  proof (cases "length buffer < N")
    case True
    then show ?thesis by (simp add: addSample_def Let_def)
  next
    case False
    with Cons.prems have full: "length buffer = N" by simp
    have "addSample N s buffer = drop 1 (buffer @ [s])"
      using full by (simp add: addSample_def Let_def)
    then have eq: "addSample N s buffer @ samples = drop 1 (buffer @ s # samples)"
      using full by (cases buffer) simp_all
    have len: "length (addSample N s buffer @ samples) - N = length samples"
      using full by (simp add: length_addSample)
    have len': "length (buffer @ s # samples) - N = length samples + 1"
      using full by simp
    have "drop (length (addSample N s buffer @ samples) - N) (addSample N s buffer @ samples)
          = drop (length samples) (addSample N s buffer @ samples)"
      by (simp only: len)
    also have "\<dots> = drop (length samples) (drop 1 (buffer @ s # samples))"
      by (simp only: eq)
    also have "\<dots> = drop (length samples + 1) (buffer @ s # samples)"
      by (simp only: drop_drop)
    finally show ?thesis
      by (simp only: len')
  qed
  finally show ?case .
qed

text \<open>
  C6. The sample buffer never holds more than its capacity \<open>N\<close>: not after one
  arrival, whatever the buffer was, and not after any run of arrivals from the empty
  buffer, which leaves exactly the last \<open>N\<close> arrivals in arrival order. A buffer with
  room takes the sample at its end; a full one drops its oldest sample first.
\<close>

theorem waveSample_buffer_bounded_fifo:
  "length (addSample N sample buffer) \<le> N
   \<and> length (recordSamples N samples []) \<le> N
   \<and> recordSamples N samples [] = drop (length samples - N) samples
   \<and> (length buffer < N \<longrightarrow> addSample N sample buffer = buffer @ [sample])
   \<and> (length buffer = N \<and> 0 < N \<longrightarrow> addSample N sample buffer = tl buffer @ [sample])"
proof -
  have all: "recordSamples N samples [] = drop (length samples - N) samples"
    using recordSamples_append [of "[]" N samples] by simp
  have full: "addSample N sample buffer = tl buffer @ [sample]" if "length buffer = N" "0 < N"
    using that by (cases buffer) (simp_all add: addSample_def Let_def)
  have room: "addSample N sample buffer = buffer @ [sample]" if "length buffer < N"
    using that by (simp add: addSample_def Let_def)
  show ?thesis
    using all full room by (simp add: length_addSample)
qed

theorem waveSample_buffer_bounded_fifo_witness:
  "length [(1, 5), (2, 6 :: real)] = (2 :: nat) \<and> (0 :: nat) < 2
   \<and> addSample 2 (3, 7) [(1, 5), (2, 6)] = [(2, 6), (3, 7)]
   \<and> length [(1 :: real, 5 :: real)] < (2 :: nat)
   \<and> addSample 2 (2, 6) [(1, 5)] = [(1, 5), (2, 6)]
   \<and> recordSamples 2 [(1, 5), (2, 6), (3, 7)] [] = [(2, 6), (3, 7)]"
  using waveSample_buffer_bounded_fifo [of 2 "(3, 7)" "[(1, 5), (2, 6)]" "[(1, 5), (2, 6), (3, 7)]"]
        waveSample_buffer_bounded_fifo [of 2 "(2, 6)" "[(1, 5)]" "[]"]
  by simp


subsection \<open>The optics core\<close>

lemma dot_unit_bounds:
  assumes "dot d d = 1" "dot n n = 1"
  shows "\<bar>dot d n\<bar> \<le> 1"
proof -
  have "(dot d n)\<^sup>2 + (fst d * snd n - snd d * fst n)\<^sup>2 = dot d d * dot n n"
    by (simp add: dot_def power2_eq_square algebra_simps)
  then have "(dot d n)\<^sup>2 \<le> 1"
    using assms by (metis mult_1 zero_le_power2 le_add_same_cancel1)
  then show ?thesis
    by (simp add: abs_le_square_iff [of "dot d n" 1, simplified])
qed

lemma snell_refraction:
  assumes unit_d: "dot d d = 1" and unit_n: "dot n n = 1" and facing: "dot d n \<le> 0"
    and n1: "1 \<le> n1" and n2: "1 \<le> n2"
    and below: "n1 > n2 \<longrightarrow> angleToNormal d n < arcsin (n2 / n1)"
  defines "theta1 \<equiv> angleToNormal d n"
  defines "theta2 \<equiv> refractionAngle n1 n2 theta1"
  shows "\<not> totalInternalReflection n1 n2 theta1"
    and "angleToNormal (refractedDirection n1 n2 theta1 theta2 d n) n = theta2"
    and "n1 * sin theta1 = n2 * sin theta2"
    and "0 \<le> theta2 \<and> theta2 \<le> pi / 2"
proof -
  have c1: "0 \<le> - dot d n" "- dot d n \<le> 1"
    using facing dot_unit_bounds [OF unit_d unit_n] by auto
  have t1: "0 \<le> theta1" "theta1 \<le> pi / 2"
    unfolding theta1_def angleToNormal_def
    using c1 arccos_lbound [of "- dot d n"] arccos_le_pi2 [of "- dot d n"] by auto
  have cos1: "cos theta1 = - dot d n"
    using c1 by (simp add: theta1_def angleToNormal_def)
  have s1: "0 \<le> sin theta1" "sin theta1 \<le> 1"
    using t1 pi_ge_two by (auto intro: sin_ge_zero)
  have ratio: "0 < n1 / n2" using n1 n2 by simp
  have noTIR: "\<not> (n1 > n2 \<and> sin theta1 > n2 / n1)"
  proof
    assume tir: "n1 > n2 \<and> sin theta1 > n2 / n1"
    then have q: "0 \<le> n2 / n1" "n2 / n1 \<le> 1" using n1 n2 by auto
    from tir below have lt: "theta1 < arcsin (n2 / n1)" by (simp add: theta1_def)
    have "arcsin (n2 / n1) \<le> pi / 2" "- (pi / 2) \<le> arcsin (n2 / n1)"
      using q arcsin_ubound [of "n2 / n1"] arcsin_lbound [of "n2 / n1"] by auto
    then have "sin theta1 < sin (arcsin (n2 / n1))"
      using lt t1 by (subst sin_mono_less_eq) auto
    then have "sin theta1 < n2 / n1" using q by simp
    with tir show False by simp
  qed
  then show "\<not> totalInternalReflection n1 n2 theta1"
    by (simp add: totalInternalReflection_def)
  have y: "0 \<le> (n1 / n2) * sin theta1" "(n1 / n2) * sin theta1 \<le> 1"
  proof -
    show "0 \<le> (n1 / n2) * sin theta1" using ratio s1 by (intro mult_nonneg_nonneg) auto
    show "(n1 / n2) * sin theta1 \<le> 1"
    proof (cases "n1 > n2")
      case True
      with noTIR have "sin theta1 \<le> n2 / n1" by simp
      then show ?thesis using n1 n2 by (simp add: field_simps)
    next
      case False
      then have "n1 * sin theta1 \<le> n2 * 1"
        using s1 n1 n2 by (intro mult_mono) auto
      then show ?thesis using n2 by (simp add: field_simps)
    qed
  qed
  have sin2: "sin theta2 = (n1 / n2) * sin theta1"
    using y by (simp add: theta2_def refractionAngle_def)
  show t2: "0 \<le> theta2 \<and> theta2 \<le> pi / 2"
    unfolding theta2_def refractionAngle_def
    using y arcsin_ubound [of "(n1 / n2) * sin theta1"] arcsin_nonneg [of "(n1 / n2) * sin theta1"]
    by auto
  show "n1 * sin theta1 = n2 * sin theta2"
    using n2 by (simp add: sin2)
  have "dot (refractedDirection n1 n2 theta1 theta2 d n) n
        = (n1 / n2) * dot d n + ((n1 / n2) * cos theta1 - cos theta2) * dot n n"
    by (simp add: refractedDirection_def dot_def Let_def algebra_simps)
  also have "\<dots> = - cos theta2"
    by (simp add: cos1 unit_n)
  finally have "angleToNormal (refractedDirection n1 n2 theta1 theta2 d n) n = arccos (cos theta2)"
    by (simp add: angleToNormal_def)
  also have "\<dots> = theta2"
    using t2 pi_ge_two by (intro arccos_cos) auto
  finally show "angleToNormal (refractedDirection n1 n2 theta1 theta2 d n) n = theta2" .
qed


lemma dot_combination:
  "dot (p * fst d + q * fst n, p * snd d + q * snd n)
       (p * fst d + q * fst n, p * snd d + q * snd n)
   = p\<^sup>2 * dot d d + 2 * p * q * dot d n + q\<^sup>2 * dot n n"
  by (simp add: dot_def power2_eq_square algebra_simps)

lemma refracted_unit:
  assumes unit_d: "dot d d = 1" and unit_n: "dot n n = 1" and facing: "dot d n \<le> 0"
    and n1: "1 \<le> n1" and n2: "1 \<le> n2"
    and below: "n1 > n2 \<longrightarrow> angleToNormal d n < arcsin (n2 / n1)"
  defines "theta1 \<equiv> angleToNormal d n"
  defines "theta2 \<equiv> refractionAngle n1 n2 theta1"
  defines "r \<equiv> refractedDirection n1 n2 theta1 theta2 d n"
  shows "dot r r = 1"
proof -
  define rho where "rho = n1 / n2"
  define a where "a = rho * cos theta1 - cos theta2"
  have snell: "n1 * sin theta1 = n2 * sin theta2"
    unfolding theta1_def theta2_def by (rule snell_refraction(3) [OF assms(1-6)])
  then have sin2: "sin theta2 = rho * sin theta1"
    using n2 by (simp add: rho_def field_simps)
  have c1: "\<bar>dot d n\<bar> \<le> 1" by (rule dot_unit_bounds [OF unit_d unit_n])
  have cos1: "dot d n = - cos theta1"
    using c1 by (simp add: theta1_def angleToNormal_def)
  have "r = (rho * fst d + a * fst n, rho * snd d + a * snd n)"
    by (simp add: r_def refractedDirection_def Let_def rho_def a_def)
  then have "dot r r = rho\<^sup>2 * dot d d + 2 * rho * a * dot d n + a\<^sup>2 * dot n n"
    by (simp add: dot_combination)
  also have "\<dots> = rho\<^sup>2 - 2 * rho * a * cos theta1 + a\<^sup>2"
    by (simp add: unit_d unit_n cos1)
  also have "\<dots> = rho\<^sup>2 * (1 - (cos theta1)\<^sup>2) + (cos theta2)\<^sup>2"
    by (simp add: a_def power2_eq_square algebra_simps)
  also have "\<dots> = (rho * sin theta1)\<^sup>2 + (cos theta2)\<^sup>2"
    by (simp add: power_mult_distrib sin_squared_eq)
  also have "\<dots> = 1"
    by (simp add: sin2 [symmetric])
  finally show ?thesis .
qed

text \<open>
  C1. At an interface with indices n1, n2 at least 1, for a unit ray direction and a
  unit normal facing the ray, and an incidence angle below the critical angle (when
  there is one, that is when n1 > n2), the solver produces a reflected and a refracted
  ray; the refracted direction is a unit vector and the angle theta2 it makes with the
  normal satisfies n1 sin theta1 = n2 sin theta2.
\<close>

theorem snells_law_at_interface:
  assumes "dot (direction incoming) (direction incoming) = 1"
    and "dot (unitNormal hit) (unitNormal hit) = 1"
    and "dot (direction incoming) (unitNormal hit) \<le> 0"
    and "1 \<le> incidentIndex hit" and "1 \<le> farIndex hit"
    and "incidentIndex hit > farIndex hit \<longrightarrow>
           angleToNormal (direction incoming) (unitNormal hit)
             < criticalAngle (incidentIndex hit) (farIndex hit)"
  shows "\<exists>reflected refracted.
           solveInterface incoming hit = [(Reflected, reflected), (Refracted, refracted)]
           \<and> dot (direction refracted) (direction refracted) = 1
           \<and> incidentIndex hit * sin (angleToNormal (direction incoming) (unitNormal hit))
               = farIndex hit * sin (angleToNormal (direction refracted) (unitNormal hit))"
proof -
  let ?d = "direction incoming" and ?n = "unitNormal hit"
  let ?n1 = "incidentIndex hit" and ?n2 = "farIndex hit"
  let ?t1 = "angleToNormal ?d ?n"
  let ?t2 = "refractionAngle ?n1 ?n2 ?t1"
  let ?r = "refractedDirection ?n1 ?n2 ?t1 ?t2 ?d ?n"
  note pre = assms(1-5) assms(6) [unfolded criticalAngle_def]
  have noTIR: "\<not> totalInternalReflection ?n1 ?n2 ?t1"
    by (rule snell_refraction(1) [OF pre])
  have angle: "angleToNormal ?r ?n = ?t2"
    by (rule snell_refraction(2) [OF pre])
  have snell: "?n1 * sin ?t1 = ?n2 * sin ?t2"
    by (rule snell_refraction(3) [OF pre])
  have unit: "dot ?r ?r = 1"
    by (rule refracted_unit [OF pre])
  show ?thesis
    using noTIR snell unit by (simp add: solveInterface_def Let_def angle)
qed

lemma downwardRay_angle: "angleToNormal (direction downwardRay) (unitNormal glassToAir) = 0"
  by (simp add: angleToNormal_def dot_def downwardRay_def glassToAir_def)

lemma grazingRay_angle: "angleToNormal (direction grazingRay) (unitNormal glassToAir) = pi / 2"
  by (simp add: angleToNormal_def dot_def grazingRay_def glassToAir_def)

lemma downwardRay_solved:
  "solveInterface downwardRay glassToAir =
     [(Reflected, downwardRay\<lparr>origin := (0, 0), direction := (0, 1), rayPower := 1 / 25\<rparr>),
      (Refracted, downwardRay\<lparr>origin := (0, 0), direction := (0, - 1), rayPower := 24 / 25,
                    mediumIndex := 1\<rparr>)]"
proof -
  have t1: "angleToNormal (0, - 1) (0, 1) = 0"
    using downwardRay_angle by (simp add: downwardRay_def glassToAir_def)
  have noTIR: "\<not> totalInternalReflection (3 / 2) 1 0"
    by (simp add: totalInternalReflection_def)
  have t2: "refractionAngle (3 / 2) 1 0 = 0"
    by (simp add: refractionAngle_def)
  have R: "reflectance (3 / 2) 1 0 0 = 1 / 25"
    by (simp add: reflectance_def Let_def power2_eq_square)
  have mirrored: "reflectedDirection (0, - 1) (0, 1) = (0, 1)"
    by (simp add: reflectedDirection_def dot_def)
  have bent: "refractedDirection (3 / 2) 1 0 0 (0, - 1) (0, 1) = (0, - 1)"
    by (simp add: refractedDirection_def Let_def)
  show ?thesis
    by (simp add: solveInterface_def Let_def downwardRay_def glassToAir_def t1 noTIR t2 R mirrored bent)
qed

lemma obliqueRay_sine:
  "sin (angleToNormal (direction obliqueRay) (unitNormal glassToAir)) = 3 / 5"
proof -
  have "sqrt (9 / 25) = 3 / 5"
    by (rule real_sqrt_unique) (simp_all add: power2_eq_square)
  then have "sin (arccos (4 / 5)) = 3 / 5"
    by (simp add: sin_arccos power2_eq_square)
  then show ?thesis
    by (simp add: angleToNormal_def dot_def obliqueRay_def glassToAir_def)
qed

lemma obliqueRay_below_critical:
  "angleToNormal (direction obliqueRay) (unitNormal glassToAir)
     < criticalAngle (incidentIndex glassToAir) (farIndex glassToAir)"
proof -
  let ?t = "angleToNormal (direction obliqueRay) (unitNormal glassToAir)"
  have t: "?t = arccos (4 / 5)"
    by (simp add: angleToNormal_def dot_def obliqueRay_def glassToAir_def)
  have "0 \<le> arccos (4 / 5 :: real)" "arccos (4 / 5 :: real) \<le> pi / 2"
    using arccos_lbound [of "4 / 5"] arccos_le_pi2 [of "4 / 5"] by simp_all
  then have "arcsin (sin ?t) = ?t"
    unfolding t by (intro arcsin_sin) auto
  then have "?t = arcsin (3 / 5)"
    by (simp add: obliqueRay_sine)
  moreover have "arcsin (3 / 5 :: real) < arcsin (2 / 3)"
    by (rule arcsin_less_arcsin) simp_all
  ultimately show ?thesis
    by (simp add: criticalAngle_def glassToAir_def)
qed

theorem snells_law_at_interface_witness:
  "dot (direction obliqueRay) (direction obliqueRay) = 1
   \<and> dot (unitNormal glassToAir) (unitNormal glassToAir) = 1
   \<and> dot (direction obliqueRay) (unitNormal glassToAir) \<le> 0
   \<and> 1 \<le> incidentIndex glassToAir \<and> 1 \<le> farIndex glassToAir
   \<and> incidentIndex glassToAir > farIndex glassToAir
   \<and> angleToNormal (direction obliqueRay) (unitNormal glassToAir)
        < criticalAngle (incidentIndex glassToAir) (farIndex glassToAir)
   \<and> sin (angleToNormal (direction obliqueRay) (unitNormal glassToAir)) = 3 / 5
   \<and> (\<exists>reflected refracted.
         solveInterface obliqueRay glassToAir = [(Reflected, reflected), (Refracted, refracted)]
         \<and> fst (direction refracted) = 9 / 10
         \<and> direction refracted \<noteq> direction obliqueRay
         \<and> dot (direction refracted) (direction refracted) = 1
         \<and> sin (angleToNormal (direction refracted) (unitNormal glassToAir)) = 9 / 10
         \<and> incidentIndex glassToAir * sin (angleToNormal (direction obliqueRay) (unitNormal glassToAir))
             = farIndex glassToAir * sin (angleToNormal (direction refracted) (unitNormal glassToAir)))"
proof -
  have h1: "dot (direction obliqueRay) (direction obliqueRay) = 1"
    by (simp add: dot_def obliqueRay_def)
  have h2: "dot (unitNormal glassToAir) (unitNormal glassToAir) = 1"
    by (simp add: dot_def glassToAir_def)
  have h3: "dot (direction obliqueRay) (unitNormal glassToAir) \<le> 0"
    by (simp add: dot_def obliqueRay_def glassToAir_def)
  have h4: "1 \<le> incidentIndex glassToAir" and h5: "1 \<le> farIndex glassToAir"
    and denser: "incidentIndex glassToAir > farIndex glassToAir"
    by (simp_all add: glassToAir_def)
  note below = obliqueRay_below_critical
  then have h6: "incidentIndex glassToAir > farIndex glassToAir \<longrightarrow>
       angleToNormal (direction obliqueRay) (unitNormal glassToAir)
        < criticalAngle (incidentIndex glassToAir) (farIndex glassToAir)" by simp
  from snells_law_at_interface [OF h1 h2 h3 h4 h5 h6]
  obtain reflected refracted where
    solved: "solveInterface obliqueRay glassToAir = [(Reflected, reflected), (Refracted, refracted)]"
    and unit: "dot (direction refracted) (direction refracted) = 1"
    and snell: "incidentIndex glassToAir * sin (angleToNormal (direction obliqueRay) (unitNormal glassToAir))
             = farIndex glassToAir * sin (angleToNormal (direction refracted) (unitNormal glassToAir))"
    by blast
  have idx: "incidentIndex glassToAir = 3 / 2" "farIndex glassToAir = 1"
    by (simp_all add: glassToAir_def)
  from snell have sine2: "sin (angleToNormal (direction refracted) (unitNormal glassToAir)) = 9 / 10"
    unfolding obliqueRay_sine idx by simp
  from solved have "direction refracted =
      refractedDirection (incidentIndex glassToAir) (farIndex glassToAir)
        (angleToNormal (direction obliqueRay) (unitNormal glassToAir))
        (refractionAngle (incidentIndex glassToAir) (farIndex glassToAir)
          (angleToNormal (direction obliqueRay) (unitNormal glassToAir)))
        (direction obliqueRay) (unitNormal glassToAir)"
    by (auto simp add: solveInterface_def Let_def split: if_splits)
  then have first: "fst (direction refracted) = 9 / 10"
    by (simp add: refractedDirection_def Let_def obliqueRay_def glassToAir_def)
  then have bent: "direction refracted \<noteq> direction obliqueRay"
    by (auto simp add: obliqueRay_def)
  from solved first bent unit sine2 snell h1 h2 h3 h4 h5 denser below obliqueRay_sine
  show ?thesis by blast
qed

text \<open>
  C2. When the interface is not in total internal reflection the solver produces a
  reflected ray of power incident * R and a refracted ray of power incident * (1 - R),
  which add up to the incident power; in total internal reflection it produces the
  single internally reflected ray, whose power is the incident power, and no refracted
  ray.
\<close>

theorem power_split_at_interface:
  "(\<not> totalInternalReflection (incidentIndex hit) (farIndex hit)
        (angleToNormal (direction incoming) (unitNormal hit)) \<longrightarrow>
      (\<exists>reflected refracted.
         solveInterface incoming hit = [(Reflected, reflected), (Refracted, refracted)]
         \<and> rayPower reflected = rayPower incoming *
             reflectance (incidentIndex hit) (farIndex hit)
               (angleToNormal (direction incoming) (unitNormal hit))
               (refractionAngle (incidentIndex hit) (farIndex hit)
                 (angleToNormal (direction incoming) (unitNormal hit)))
         \<and> rayPower refracted = rayPower incoming * (1 -
             reflectance (incidentIndex hit) (farIndex hit)
               (angleToNormal (direction incoming) (unitNormal hit))
               (refractionAngle (incidentIndex hit) (farIndex hit)
                 (angleToNormal (direction incoming) (unitNormal hit))))
         \<and> rayPower reflected + rayPower refracted = rayPower incoming))
   \<and> (totalInternalReflection (incidentIndex hit) (farIndex hit)
        (angleToNormal (direction incoming) (unitNormal hit)) \<longrightarrow>
      (\<exists>reflected.
         solveInterface incoming hit = [(InternallyReflected, reflected)]
         \<and> rayPower reflected = rayPower incoming))"
  by (simp add: solveInterface_def Let_def algebra_simps)


theorem power_split_at_interface_witness:
  "\<not> totalInternalReflection (incidentIndex glassToAir) (farIndex glassToAir)
        (angleToNormal (direction downwardRay) (unitNormal glassToAir))
   \<and> (\<exists>reflected refracted.
         solveInterface downwardRay glassToAir = [(Reflected, reflected), (Refracted, refracted)]
         \<and> rayPower reflected = 1 / 25 \<and> rayPower refracted = 24 / 25
         \<and> rayPower reflected + rayPower refracted = rayPower downwardRay)
   \<and> totalInternalReflection (incidentIndex glassToAir) (farIndex glassToAir)
        (angleToNormal (direction grazingRay) (unitNormal glassToAir))
   \<and> (\<exists>reflected.
         solveInterface grazingRay glassToAir = [(InternallyReflected, reflected)]
         \<and> rayPower reflected = rayPower grazingRay)"
proof -
  have split: "\<not> totalInternalReflection (incidentIndex glassToAir) (farIndex glassToAir)
        (angleToNormal (direction downwardRay) (unitNormal glassToAir))"
    unfolding downwardRay_angle totalInternalReflection_def by (simp add: glassToAir_def)
  have tir: "totalInternalReflection (incidentIndex glassToAir) (farIndex glassToAir)
        (angleToNormal (direction grazingRay) (unitNormal glassToAir))"
    unfolding grazingRay_angle totalInternalReflection_def by (simp add: glassToAir_def)
  from power_split_at_interface [of glassToAir downwardRay] split
  obtain reflected refracted where
    a: "solveInterface downwardRay glassToAir = [(Reflected, reflected), (Refracted, refracted)]"
    and b: "rayPower reflected + rayPower refracted = rayPower downwardRay"
    by blast
  from a have c: "rayPower reflected = 1 / 25 \<and> rayPower refracted = 24 / 25"
    by (auto simp add: downwardRay_solved)
  from power_split_at_interface [of glassToAir grazingRay] tir
  obtain reflected' where
    d: "solveInterface grazingRay glassToAir = [(InternallyReflected, reflected')]"
    and e: "rayPower reflected' = rayPower grazingRay"
    by blast
  from split tir a b c d e show ?thesis by blast
qed

lemma length_solveInterface: "length (solveInterface r hit) \<le> 2"
  by (simp add: solveInterface_def Let_def)

lemma splitBudget_pos: "0 < splitBudget cfg q"
proof -
  define x where "x = (2::nat) ^ (maxDepth cfg - queuedDepth q)"
  have "1 \<le> x" by (simp add: x_def)
  then have "0 < 2 * x - 1" by arith
  then show ?thesis by (simp add: splitBudget_def x_def)
qed

lemma children_budget:
  "sum_list (map (splitBudget cfg) (enqueuedChildren cfg q hit)) < splitBudget cfg q"
proof (cases "queuedDepth q < maxDepth cfg")
  case False
  then show ?thesis by (simp add: enqueuedChildren_def splitBudget_pos)
next
  case True
  define kids where "kids = enqueuedChildren cfg q hit"
  define w where "w = (2::nat) ^ (maxDepth cfg - queuedDepth q) - 1"
  have depth: "\<forall>c \<in> set kids. queuedDepth c = queuedDepth q + 1"
    using True by (auto simp add: kids_def enqueuedChildren_def)
  have each: "\<forall>c \<in> set kids. splitBudget cfg c = w"
  proof
    fix c assume "c \<in> set kids"
    with depth have "queuedDepth c = queuedDepth q + 1" by simp
    moreover have "Suc (maxDepth cfg - (queuedDepth q + 1)) = maxDepth cfg - queuedDepth q"
      using True by simp
    ultimately show "splitBudget cfg c = w" by (simp add: splitBudget_def w_def)
  qed
  have len: "length kids \<le> 2"
    using True length_solveInterface [of "queuedRay q" hit]
    by (simp add: kids_def enqueuedChildren_def)
       (meson le_trans length_filter_le)
  have "sum_list (map (splitBudget cfg) kids) = length kids * w"
    using each by (induction kids) simp_all
  also have "\<dots> \<le> 2 * w" using len by simp
  also have "\<dots> < 2 ^ Suc (maxDepth cfg - queuedDepth q) - 1"
  proof -
    define x where "x = (2::nat) ^ (maxDepth cfg - queuedDepth q)"
    have "1 \<le> x" by (simp add: x_def)
    then have "2 * (x - 1) < 2 * x - 1" by arith
    then show ?thesis by (simp add: w_def x_def)
  qed
  finally show ?thesis by (simp add: kids_def splitBudget_def)
qed

lemma engineStep_decreases:
  assumes "workQueue st \<noteq> []"
  shows "pendingWork cfg (engineStep cfg st) < pendingWork cfg st"
proof -
  from assms obtain q rest where q: "workQueue st = q # rest"
    by (cases "workQueue st") auto
  show ?thesis
  proof (cases "nearestIntersection cfg (queuedRay q)")
    case None
    with q show ?thesis
      by (simp add: engineStep_def pendingWork_def splitBudget_pos)
  next
    case (Some hit)
    with q show ?thesis
      using children_budget [of cfg q hit]
      by (simp add: engineStep_def pendingWork_def)
  qed
qed

lemma engineStep_empty: "workQueue st = [] \<Longrightarrow> engineStep cfg st = st"
  by (simp add: engineStep_def)

lemma pendingWork_zero: "pendingWork cfg st = 0 \<longleftrightarrow> workQueue st = []"
proof
  assume z: "pendingWork cfg st = 0"
  show "workQueue st = []"
  proof (cases "workQueue st")
    case Nil then show ?thesis .
  next
    case (Cons q rest)
    with z splitBudget_pos [of cfg q] show ?thesis by (simp add: pendingWork_def)
  qed
qed (simp add: pendingWork_def)

lemma steps_consume:
  "pendingWork cfg ((engineStep cfg ^^ k) st) + k \<le> pendingWork cfg st
   \<or> workQueue ((engineStep cfg ^^ k) st) = []"
proof (induction k)
  case 0
  show ?case by simp
next
  case (Suc k)
  let ?s = "(engineStep cfg ^^ k) st"
  show ?case
  proof (cases "workQueue ?s = []")
    case True
    then show ?thesis by (simp add: engineStep_empty)
  next
    case False
    with Suc have "pendingWork cfg ?s + k \<le> pendingWork cfg st" by simp
    moreover have "pendingWork cfg (engineStep cfg ?s) < pendingWork cfg ?s"
      by (rule engineStep_decreases [OF False])
    ultimately show ?thesis by simp
  qed
qed

lemma seed_budget: "pendingWork cfg (seedState r) = 2 ^ Suc (maxDepth cfg) - 1"
  by (simp add: pendingWork_def seedState_def splitBudget_def)

lemma children_withinBounds:
  "\<forall>c \<in> set (enqueuedChildren cfg q hit). withinBounds cfg c"
  by (auto simp add: enqueuedChildren_def withinBounds_def)

lemma engineStep_withinBounds:
  assumes "\<forall>q \<in> set (workQueue st). withinBounds cfg q"
  shows "\<forall>q \<in> set (workQueue (engineStep cfg st)). withinBounds cfg q"
proof (cases "workQueue st")
  case Nil
  then show ?thesis by (simp add: engineStep_def)
next
  case (Cons q rest)
  with assms show ?thesis
    using children_withinBounds [of cfg q]
    by (cases "nearestIntersection cfg (queuedRay q)") (auto simp add: engineStep_def)
qed

lemma reachable_withinBounds:
  "\<forall>q \<in> set (workQueue ((engineStep cfg ^^ k) (seedState r))). withinBounds cfg q"
proof (induction k)
  case 0
  show ?case by (simp add: seedState_def withinBounds_def)
next
  case (Suc k)
  then show ?case using engineStep_withinBounds by simp
qed

text \<open>
  C4. Every run of the propagation engine terminates with an empty work queue, whatever
  the geometry answers: the queue is empty after at most \<open>2 ^ (maxDepth + 1) - 1\<close>
  turns of the loop. Every ray that is ever pending has depth at most the maximum
  depth, and, but for the laser's own ray, power at least the threshold: weaker
  children are discarded, not enqueued.
\<close>

theorem propagation_terminates:
  "(\<exists>final. propagate cfg laserRay = Some final \<and> workQueue final = [])
   \<and> workQueue ((engineStep cfg ^^ (2 ^ Suc (maxDepth cfg) - 1)) (seedState laserRay)) = []
   \<and> (\<forall>q \<in> set (workQueue ((engineStep cfg ^^ k) (seedState laserRay))).
         queuedDepth q \<le> maxDepth cfg
         \<and> (queuedDepth q = 0 \<or> powerThreshold cfg \<le> rayPower (queuedRay q)))"
proof -
  have "\<exists>final. while_option (\<lambda>st. workQueue st \<noteq> []) (engineStep cfg) (seedState laserRay)
          = Some final"
    by (rule measure_while_option_Some [where P = "\<lambda>_. True" and f = "pendingWork cfg"])
       (simp_all add: engineStep_decreases)
  then obtain final where run: "propagate cfg laserRay = Some final"
    by (auto simp add: propagate_def)
  then have "workQueue final = []"
    using while_option_stop [of "\<lambda>st. workQueue st \<noteq> []" "engineStep cfg" "seedState laserRay" final]
    by (simp add: propagate_def)
  with run have first: "\<exists>final. propagate cfg laserRay = Some final \<and> workQueue final = []"
    by blast
  define n :: nat where "n = 2 ^ Suc (maxDepth cfg) - 1"
  have "pendingWork cfg (seedState laserRay) = n"
    by (simp only: seed_budget n_def)
  with steps_consume [of cfg n "seedState laserRay"]
  have "pendingWork cfg ((engineStep cfg ^^ n) (seedState laserRay)) = 0
        \<or> workQueue ((engineStep cfg ^^ n) (seedState laserRay)) = []"
    by arith
  then have "workQueue ((engineStep cfg ^^ n) (seedState laserRay)) = []"
    by (auto simp add: pendingWork_zero)
  then have second:
    "workQueue ((engineStep cfg ^^ (2 ^ Suc (maxDepth cfg) - 1)) (seedState laserRay)) = []"
    by (simp only: n_def)
  have third: "\<forall>q \<in> set (workQueue ((engineStep cfg ^^ k) (seedState laserRay))).
         queuedDepth q \<le> maxDepth cfg
         \<and> (queuedDepth q = 0 \<or> powerThreshold cfg \<le> rayPower (queuedRay q))"
    using reachable_withinBounds [of k cfg laserRay] by (simp add: withinBounds_def)
  from first second third show ?thesis by blast
qed


lemma oneInterface_first_step:
  "workQueue (engineStep oneInterface (seedState downwardRay)) = [reflectedChild, refractedChild]"
proof -
  have hit: "nearestIntersection oneInterface downwardRay = Some glassToAir"
    by (simp add: oneInterface_def downwardRay_def)
  have kids: "enqueuedChildren oneInterface
        \<lparr>queuedRay = downwardRay, queuedRole = Incident, queuedDepth = 0\<rparr> glassToAir
        = [reflectedChild, refractedChild]"
    by (simp add: enqueuedChildren_def downwardRay_solved reflectedChild_def refractedChild_def)
       (simp add: oneInterface_def)
  show ?thesis
    by (simp add: engineStep_def seedState_def hit kids)
qed

lemma oneInterface_escape:
  "workQueue st = q # rest \<Longrightarrow> origin (queuedRay q) = (0, 0) \<Longrightarrow>
   workQueue (engineStep oneInterface st) = rest"
  by (simp add: engineStep_def oneInterface_def)

lemma oneInterface_three_steps:
  "workQueue ((engineStep oneInterface ^^ 3) (seedState downwardRay)) = []"
proof -
  have two: "workQueue (engineStep oneInterface (engineStep oneInterface (seedState downwardRay)))
             = [refractedChild]"
    by (rule oneInterface_escape [OF oneInterface_first_step])
       (simp add: reflectedChild_def)
  have "workQueue (engineStep oneInterface
          (engineStep oneInterface (engineStep oneInterface (seedState downwardRay)))) = []"
    by (rule oneInterface_escape [OF two]) (simp add: refractedChild_def)
  then show ?thesis by (simp add: eval_nat_numeral)
qed

theorem propagation_terminates_witness:
  "(\<exists>final. propagate oneInterface downwardRay = Some final \<and> workQueue final = [])
   \<and> workQueue ((engineStep oneInterface ^^ 1) (seedState downwardRay))
       = [reflectedChild, refractedChild]
   \<and> queuedDepth reflectedChild \<le> maxDepth oneInterface
   \<and> powerThreshold oneInterface \<le> rayPower (queuedRay reflectedChild)
   \<and> queuedDepth refractedChild \<le> maxDepth oneInterface
   \<and> powerThreshold oneInterface \<le> rayPower (queuedRay refractedChild)
   \<and> workQueue ((engineStep oneInterface ^^ 3) (seedState downwardRay)) = []"
  using propagation_terminates [of oneInterface downwardRay 1]
        oneInterface_first_step oneInterface_three_steps
  by (simp add: reflectedChild_def refractedChild_def oneInterface_def)

end
